theory Spec2Isabelle
  imports Complex_Main
begin

section \<open>Shallow embedding of kfit.py\<close>

text \<open>
  The fitting library works on numpy arrays of floating-point numbers. Arrays are
  modelled as lists and the numbers as \<^typ>\<open>real\<close>: rounding and overflow are
  outside the model, and so are the values \<open>inf\<close> and \<open>nan\<close> that numpy returns
  for a division by zero, except in \<open>get_rsquare\<close> and \<open>kinfunc\<close>, where every
  division is written out with what it does at a zero divisor. Every Python
  exception that a modelled path can raise is a value of \<open>error\<close>, and a function
  that can raise returns \<open>error + 'a\<close>.
\<close>

datatype error =
  TypeError | IndexError | NameError | UnboundLocalError | ValueError | ZeroDivisionError

definition bind_err :: "error + 'a \<Rightarrow> ('a \<Rightarrow> error + 'b) \<Rightarrow> error + 'b" where
  "bind_err m f = (case m of Inl e \<Rightarrow> Inl e | Inr a \<Rightarrow> f a)"

text \<open>\<^verbatim>\<open>xs[i]\<close> for \<open>i \<ge> 0\<close>, and \<^verbatim>\<open>xs[-1]\<close>.\<close>

definition pyget :: "'a list \<Rightarrow> nat \<Rightarrow> error + 'a" where
  "pyget xs i = (if i < length xs then Inr (xs ! i) else Inl IndexError)"

definition pyget_last :: "'a list \<Rightarrow> error + 'a" where
  "pyget_last xs = (if xs = [] then Inl IndexError else Inr (last xs))"

subsection \<open>DomainSelector\<close>

text \<open>
  \<^verbatim>\<open>np.searchsorted(a, v)\<close> with its default \<^verbatim>\<open>side='left'\<close> is numpy's binary
  search: it keeps a window \<open>[lo, hi)\<close>, compares the middle element with the key by
  \<open><\<close> and returns the left end once the window is empty.
\<close>

function binsearch_left :: "real list \<Rightarrow> real \<Rightarrow> nat \<Rightarrow> nat \<Rightarrow> nat" where
  "binsearch_left a v lo hi =
     (if lo < hi then
        (let mid = lo + (hi - lo) div 2
         in if a ! mid < v then binsearch_left a v (mid + 1) hi
            else binsearch_left a v lo mid)
      else lo)"
  by pat_completeness auto
termination
  by (relation "measure (\<lambda>(a, v, lo, hi). hi - lo)") auto

declare binsearch_left.simps [simp del]

definition searchsorted :: "real list \<Rightarrow> real \<Rightarrow> nat" where
  "searchsorted a v = binsearch_left a v 0 (length a)"

text \<open>
  A Python slice \<^verbatim>\<open>xs[i:j]\<close> with \<open>0 \<le> i, j \<le> len(xs)\<close>, which is what
  \<open>searchsorted\<close> returns; it is empty when \<open>j \<le> i\<close> (the subtraction on
  \<^typ>\<open>nat\<close> truncates at \<open>0\<close>).
\<close>

definition slice :: "'a list \<Rightarrow> nat \<Rightarrow> nat \<Rightarrow> 'a list" where
  "slice xs i j = take (j - i) (drop i xs)"

definition argselectdomain :: "real list \<Rightarrow> real \<times> real \<Rightarrow> nat \<times> nat" where
  "argselectdomain xdata domain =
     (let ind0 = searchsorted xdata (fst domain); ind1 = searchsorted xdata (snd domain)
      in (ind0, ind1))"

definition selectdomain ::
  "real list \<Rightarrow> 'a list \<Rightarrow> real \<times> real \<Rightarrow> real list \<times> 'a list" where
  "selectdomain xdata ydata domain =
     (let ind0 = searchsorted xdata (fst domain); ind1 = searchsorted xdata (snd domain)
      in (slice xdata ind0 ind1, slice ydata ind0 ind1))"

subsection \<open>GoodnessOfFit\<close>

text \<open>
  The result of \<open>get_rsquare\<close> is a numpy float: the division of two sums is the one
  place where the library's result may be \<open>nan\<close> or infinite, so the quotient is
  modelled with those values.
\<close>

datatype npfloat = Finite real | NaN | PosInf | NegInf

definition np_div :: "real \<Rightarrow> real \<Rightarrow> npfloat" where
  "np_div a b =
     (if b \<noteq> 0 then Finite (a / b)
      else if a = 0 then NaN
      else if 0 < a then PosInf else NegInf)"

fun np_rsub :: "real \<Rightarrow> npfloat \<Rightarrow> npfloat" where
  "np_rsub c (Finite r) = Finite (c - r)"
| "np_rsub c NaN = NaN"
| "np_rsub c PosInf = NegInf"
| "np_rsub c NegInf = PosInf"

text \<open>
  Elementwise subtraction of two one-dimensional arrays: equal lengths, or one of
  them of length one, which numpy broadcasts; anything else raises ValueError.
\<close>

definition np_sub :: "real list \<Rightarrow> real list \<Rightarrow> error + real list" where
  "np_sub xs ys =
     (if length xs = length ys then Inr (map (\<lambda>(x, y). x - y) (zip xs ys))
      else if length ys = 1 then Inr (map (\<lambda>x. x - hd ys) xs)
      else if length xs = 1 then Inr (map (\<lambda>y. hd xs - y) ys)
      else Inl ValueError)"

text \<open>
  \<^verbatim>\<open>np.mean\<close> of an empty array is \<open>nan\<close>; in \<open>get_rsquare\<close> that mean is then
  subtracted from the entries of the same, empty, array, so it reaches no value.
\<close>

definition np_mean :: "real list \<Rightarrow> real" where
  "np_mean ys = sum_list ys / real (length ys)"

definition get_rsquare :: "real list \<Rightarrow> real list \<Rightarrow> error + npfloat" where
  "get_rsquare ydata ydatafit =
     (let ybar = np_mean ydata;
          total_sum_of_squares = sum_list (map (\<lambda>y. (y - ybar)\<^sup>2) ydata)
      in bind_err (np_sub ydata ydatafit) (\<lambda>d.
           let residual_sum_of_squares = sum_list (map (\<lambda>r. r\<^sup>2) d)
           in Inr (np_rsub 1 (np_div residual_sum_of_squares total_sum_of_squares))))"

subsection \<open>LineshapeModels\<close>

text \<open>
  What a call may print or plot, and the optimizer calls it makes, in order. A
  formatted line is kept as its arguments.
\<close>

datatype cov = CovMatrix "real list list" | CovIndeterminate

datatype event =
    Print string
  | PrintParams "real list option"
  | PrintCov cov
  | PrintFit string real real
  | PrintCoef nat real real
  | Plot string string
  | CurveFitCall "real list option"
  | LeastsqCall "real list"

text \<open>
  \<open>kinfunc(p, x)\<close> is also called directly, on Python numbers, so its operands are
  modelled as such: an \<open>int\<close> or a \<open>float\<close>. The module has no
  \<^verbatim>\<open>from __future__ import division\<close>: in Python 2 the quotient \<^verbatim>\<open>x/Tc\<close> of two
  ints is the floor of the quotient, and a true division otherwise. A zero divisor
  raises ZeroDivisionError; on numpy operands the same division gives \<open>inf\<close> or
  \<open>nan\<close> with a warning, which is no number either, and the model has the one
  outcome \<open>Inl ZeroDivisionError\<close> for both.
\<close>

datatype pynum = is_PyInt: PyInt int | is_PyFloat: PyFloat real

fun num_val :: "pynum \<Rightarrow> real" where
  "num_val (PyInt i) = real_of_int i"
| "num_val (PyFloat r) = r"

fun py2_div :: "pynum \<Rightarrow> pynum \<Rightarrow> error + pynum" where
  "py2_div (PyInt a) (PyInt b) =
     (if b = 0 then Inl ZeroDivisionError else Inr (PyInt (a div b)))"
| "py2_div a b =
     (if num_val b = 0 then Inl ZeroDivisionError
      else Inr (PyFloat (num_val a / num_val b)))"

text \<open>A division whose dividend is a float: a true division.\<close>

definition float_div :: "real \<Rightarrow> real \<Rightarrow> error + real" where
  "float_div a b = (if b = 0 then Inl ZeroDivisionError else Inr (a / b))"

text \<open>
  In \<^verbatim>\<open>f0*(1-alpha/2.*1/(1-(x/Tc)**4))\<close> the dividend \<^verbatim>\<open>alpha/2.*1\<close> is a float
  whatever \<open>alpha\<close> is, and the divisor \<^verbatim>\<open>1-(x/Tc)**4\<close> is an int or a float with
  the value \<open>1 - q\<^sup>4\<close> for the quotient \<open>q\<close> of \<^verbatim>\<open>x/Tc\<close>. The format \<^verbatim>\<open>%.2f\<close> of
  \<open>1.2\<close> is \<^verbatim>\<open>1.20\<close>.
\<close>

definition kinfunc :: "pynum list \<Rightarrow> pynum \<Rightarrow> event list \<times> (error + real)" where
  "kinfunc p x =
     (case pyget p 0 of Inl e \<Rightarrow> ([], Inl e) | Inr f0 \<Rightarrow>
      (case pyget p 1 of Inl e \<Rightarrow> ([], Inl e) | Inr alpha \<Rightarrow>
       (let (Tc, printed) =
              (if length p = 3 then (p ! 2, [])
               else (PyFloat (12 / 10), [Print ''Assuming Tc = 1.20 K'']))
        in (printed,
            bind_err (py2_div x Tc) (\<lambda>q.
            bind_err (float_div (num_val alpha / 2 * 1) (1 - num_val q ^ 4)) (\<lambda>r.
              Inr (num_val f0 * (1 - r))))))))"

text \<open>
  \<open>lorfunc_better(x, offset, amplitude, center, hwhm)\<close> takes exactly four
  parameters after \<open>x\<close>: a call \<^verbatim>\<open>lorfunc_better(x, *p)\<close> with another number of
  them is a TypeError.
\<close>

definition lorfunc_better :: "real \<Rightarrow> real list \<Rightarrow> error + real" where
  "lorfunc_better x p =
     (case p of
        [offset, amplitude, center, hwhm] \<Rightarrow>
          Inr (offset + amplitude / (1 + (x - center)\<^sup>2 / hwhm\<^sup>2))
      | _ \<Rightarrow> Inl TypeError)"

definition gaussfunc :: "real list \<Rightarrow> real \<Rightarrow> error + real" where
  "gaussfunc p x =
     bind_err (pyget p 0) (\<lambda>p0. bind_err (pyget p 1) (\<lambda>p1.
     bind_err (pyget p 2) (\<lambda>p2. bind_err (pyget p 3) (\<lambda>p3.
       Inr (p0 + p1 * exp (- 1 / 2 * (x - p2)\<^sup>2 / p3\<^sup>2))))))"

definition gaussfunc_nooffset :: "real list \<Rightarrow> real \<Rightarrow> error + real" where
  "gaussfunc_nooffset p x =
     bind_err (pyget p 0) (\<lambda>p0. bind_err (pyget p 1) (\<lambda>p1.
     bind_err (pyget p 2) (\<lambda>p2.
       Inr (p0 * exp (- 1 / 2 * (x - p1)\<^sup>2 / p2\<^sup>2)))))"

text \<open>
  The loop \<^verbatim>\<open>for n in range(N): Ngauss += p[3*n+1]*math.e**(...)\<close> shared, as text, by
  \<open>Ngaussfunc\<close> and \<open>Ngaussfunc_no_offset\<close>; the list is \<^verbatim>\<open>range(N)\<close>.
\<close>

fun Ngauss_loop :: "real list \<Rightarrow> real \<Rightarrow> nat list \<Rightarrow> real \<Rightarrow> error + real" where
  "Ngauss_loop p x [] Ngauss = Inr Ngauss"
| "Ngauss_loop p x (n # ns) Ngauss =
     bind_err (pyget p (3 * n + 1)) (\<lambda>a. bind_err (pyget p (3 * n + 2)) (\<lambda>c.
     bind_err (pyget p (3 * n + 3)) (\<lambda>s.
       Ngauss_loop p x ns (Ngauss + a * exp (- 1 / 2 * (x - c)\<^sup>2 / s\<^sup>2)))))"

text \<open>
  \<^verbatim>\<open>N = int((len(p)-1)/3.)\<close>: \<open>int\<close> truncates towards zero, so an empty \<open>p\<close> gives
  \<open>int(-0.33) = 0\<close>, as the truncating subtraction on \<^typ>\<open>nat\<close> does.
\<close>

definition Ngauss_N :: "real list \<Rightarrow> nat" where
  "Ngauss_N p = (length p - 1) div 3"

definition Ngaussfunc :: "real list \<Rightarrow> real \<Rightarrow> error + real" where
  "Ngaussfunc p x =
     (let N = Ngauss_N p
      in bind_err (pyget p 0) (\<lambda>Ngauss. Ngauss_loop p x [0..<N] Ngauss))"

definition Ngaussfunc_no_offset :: "real list \<Rightarrow> real \<Rightarrow> error + real" where
  "Ngaussfunc_no_offset p x =
     (let N = Ngauss_N p
      in Ngauss_loop p x [0..<N] 0)"

definition decaysin :: "real list \<Rightarrow> real \<Rightarrow> error + real" where
  "decaysin p x =
     bind_err (pyget p 0) (\<lambda>p0. bind_err (pyget p 1) (\<lambda>p1.
     bind_err (pyget p 2) (\<lambda>p2. bind_err (pyget p 5) (\<lambda>p5.
     bind_err (pyget p 3) (\<lambda>p3. bind_err (pyget p 4) (\<lambda>p4.
       Inr (p0 * sin (2 * pi * p1 * x + p2 * pi / 180) * exp (- 1 * (x - p5) / p3)
            + p4)))))))"

definition parabolafunc :: "real \<Rightarrow> real list \<Rightarrow> error + real" where
  "parabolafunc x p =
     bind_err (pyget p 0) (\<lambda>p0. bind_err (pyget p 1) (\<lambda>p1.
     bind_err (pyget p 2) (\<lambda>p2.
       Inr (p0 + p1 * (x - p2)\<^sup>2))))"

text \<open>
  \<^verbatim>\<open>y = 0; for n, P in enumerate(p): y += P * x**n\<close>, once in \<open>polyfunc(p, x)\<close> and
  once in \<open>polyfunc_v2(x, *p)\<close>.
\<close>

fun polyfunc_loop :: "real list \<Rightarrow> real \<Rightarrow> nat \<Rightarrow> real \<Rightarrow> real" where
  "polyfunc_loop [] x n y = y"
| "polyfunc_loop (P # ps) x n y = polyfunc_loop ps x (n + 1) (y + P * x ^ n)"

definition polyfunc :: "real list \<Rightarrow> real \<Rightarrow> real" where
  "polyfunc p x = polyfunc_loop p x 0 0"

fun polyfunc_v2_loop :: "real \<Rightarrow> real list \<Rightarrow> nat \<Rightarrow> real \<Rightarrow> real" where
  "polyfunc_v2_loop x [] n y = y"
| "polyfunc_v2_loop x (P # ps) n y = polyfunc_v2_loop x ps (n + 1) (y + P * x ^ n)"

definition polyfunc_v2 :: "real \<Rightarrow> real list \<Rightarrow> real" where
  "polyfunc_v2 x p = polyfunc_v2_loop x p 0 0"


subsection \<open>LeastSquaresEngine\<close>

text \<open>
  A call returns the events it caused, in order, and either the exception that ended
  it or its value.
\<close>

type_synonym 'a out = "event list \<times> (error + 'a)"

definition ret :: "'a \<Rightarrow> 'a out" where
  "ret a = ([], Inr a)"

definition raise :: "error \<Rightarrow> 'a out" where
  "raise e = ([], Inl e)"

definition emit :: "event list \<Rightarrow> unit out" where
  "emit evs = (evs, Inr ())"

definition bind_out :: "'a out \<Rightarrow> ('a \<Rightarrow> 'b out) \<Rightarrow> 'b out" where
  "bind_out m f =
     (case m of
        (evs, Inl e) \<Rightarrow> (evs, Inl e)
      | (evs, Inr a) \<Rightarrow> (case f a of (evs', r) \<Rightarrow> (evs @ evs', r)))"

fun map_err :: "('a \<Rightarrow> error + 'b) \<Rightarrow> 'a list \<Rightarrow> error + 'b list" where
  "map_err f [] = Inr []"
| "map_err f (x # xs) =
     bind_err (f x) (\<lambda>y. bind_err (map_err f xs) (\<lambda>ys. Inr (y # ys)))"

text \<open>
  A lineshape formula applied by numpy to a whole array of points. What the formula
  prints, and whether it raises for want of a parameter, depend on the parameters
  alone and happen once for the call, also when the array is empty; the values are
  computed pointwise. Where a formula reports a division by zero at a point, numpy
  has \<open>inf\<close> or \<open>nan\<close> in the array: there is no array of numbers, and the
  evaluation ends with that outcome.
\<close>

definition broadcast ::
  "(real list \<Rightarrow> real \<Rightarrow> event list \<times> (error + real)) \<Rightarrow>
   real list \<Rightarrow> real list \<Rightarrow> real list out" where
  "broadcast f p xs =
     (case f p 0 of
        (evs, Inl e) \<Rightarrow> (evs, Inl e)
      | (evs, Inr _) \<Rightarrow> (evs, map_err (\<lambda>x. snd (f p x)) xs))"

definition silent :: "(real list \<Rightarrow> real \<Rightarrow> error + real) \<Rightarrow>
   real list \<Rightarrow> real \<Rightarrow> event list \<times> (error + real)" where
  "silent f p x = ([], f p x)"

text \<open>The same for the convention \<^verbatim>\<open>f(x, *p)\<close>; \<^verbatim>\<open>*None\<close> is a TypeError.\<close>

definition broadcast_v2 ::
  "(real \<Rightarrow> real list \<Rightarrow> error + real) \<Rightarrow> real list \<Rightarrow> real list option \<Rightarrow> error + real list" where
  "broadcast_v2 f xs p =
     (case p of
        None \<Rightarrow> Inl TypeError
      | Some q \<Rightarrow> (case f 0 q of Inl e \<Rightarrow> Inl e | Inr _ \<Rightarrow> map_err (\<lambda>x. f x q) xs))"

datatype fitresult =
    Params "real list"
  | ParamsErrSuccess "real list" real int
  | ParamsErrors "real list" "real list"

text \<open>
  \<open>fitgeneral\<close>. The optimizer \<^verbatim>\<open>optimize.leastsq\<close> is a parameter: it is given the
  residual function, bound to the data, and the start vector, and answers with the
  best parameters and its success flag, or raises. The module imports matplotlib as
  \<open>plt2\<close> and defines no \<open>plt\<close>, so the first statement under \<^verbatim>\<open>if showfit:\<close>, which
  in each of its branches starts with \<^verbatim>\<open>plt.plot\<close>, is a NameError.
\<close>

definition fitgeneral ::
  "((real list \<Rightarrow> error + real list) \<Rightarrow> real list \<Rightarrow> error + real list \<times> int) \<Rightarrow>
   real list \<Rightarrow> real list \<Rightarrow> (real list \<Rightarrow> real list \<Rightarrow> real list out) \<Rightarrow>
   real list option \<Rightarrow> (real \<times> real) option \<Rightarrow> bool \<Rightarrow> bool \<Rightarrow> bool \<Rightarrow> string \<Rightarrow>
   string \<Rightarrow> string \<Rightarrow> bool \<Rightarrow> fitresult out" where
  "fitgeneral leastsq xdata ydata fitfunc fitparams domain showfit showstartfit
      showdata label mark_data mark_fit show_diagnostics =
     (let (fitdatax, fitdatay) =
            (case domain of Some d \<Rightarrow> selectdomain xdata ydata d | None \<Rightarrow> (xdata, ydata));
          errfunc = (\<lambda>p x y. bind_out (fitfunc p x) (\<lambda>v. ([], np_sub v y)));
          startparams = fitparams
      in case startparams of
           None \<Rightarrow> raise TypeError
         | Some start \<Rightarrow>
             bind_out ([LeastsqCall start],
                       leastsq (\<lambda>p. snd (errfunc p fitdatax fitdatay)) start)
               (\<lambda>(bestfitparams, success).
             bind_out (if showfit then raise NameError else ret ()) (\<lambda>_.
             bind_out (errfunc bestfitparams fitdatax fitdatay) (\<lambda>residuals.
               let err = sum_list residuals
               in if show_diagnostics then ret (ParamsErrSuccess bestfitparams err success)
                  else ret (Params bestfitparams)))))"

text \<open>
  \<^verbatim>\<open>np.diag\<close> of a two-dimensional array; of the scalar \<open>inf\<close>, which
  \<^verbatim>\<open>optimize.curve_fit\<close> returns in place of a matrix when it cannot estimate the
  covariance, it raises ValueError. The standard errors are the square roots of the
  diagonal; for a negative entry numpy gives \<open>nan\<close>, which is outside the model.
\<close>

definition np_diag :: "real list list \<Rightarrow> real list" where
  "np_diag m = map (\<lambda>i. m ! i ! i) [0..<min (length m) (case m of [] \<Rightarrow> 0 | r # _ \<Rightarrow> length r)]"

definition plot_better ::
  "real list \<Rightarrow> (real list \<Rightarrow> real list option \<Rightarrow> error + real list) \<Rightarrow>
   real list option \<Rightarrow> real list \<Rightarrow> bool \<Rightarrow> bool \<Rightarrow> string \<Rightarrow> string \<Rightarrow> string \<Rightarrow>
   unit out" where
  "plot_better fitdatax fitfunc startparams bestfitparams showdata showstartfit label
      mark_data mark_fit =
     bind_out (if showdata then emit [Plot mark_data (label @ '' data'')] else ret ()) (\<lambda>_.
     bind_out (if showstartfit
               then bind_out ([], fitfunc fitdatax startparams)
                      (\<lambda>_. emit [Plot [] (label @ '' startfit'')])
               else ret ()) (\<lambda>_.
     bind_out ([], fitfunc fitdatax (Some bestfitparams)) (\<lambda>_.
     bind_out (emit [Plot mark_fit (label @ '' fit'')]) (\<lambda>_.
       if label \<noteq> [] then raise NameError else ret ()))))"

text \<open>
  \<open>fitbetter\<close>, with \<^verbatim>\<open>optimize.curve_fit\<close> as a parameter. When the \<^verbatim>\<open>try\<close> block
  fails, the handler prints and binds nothing: \<open>fitparam_errors\<close> stays unbound,
  which is \<open>None\<close> here, and reading it afterwards is an UnboundLocalError.
\<close>

definition fitbetter ::
  "((real list \<Rightarrow> real list option \<Rightarrow> error + real list) \<Rightarrow> real list \<Rightarrow> real list \<Rightarrow>
      real list option \<Rightarrow> error + real list \<times> cov) \<Rightarrow>
   real list \<Rightarrow> real list \<Rightarrow> (real list \<Rightarrow> real list option \<Rightarrow> error + real list) \<Rightarrow>
   real list option \<Rightarrow> (real \<times> real) option \<Rightarrow> bool \<Rightarrow> bool \<Rightarrow> bool \<Rightarrow> string \<Rightarrow>
   string \<Rightarrow> string \<Rightarrow> bool \<Rightarrow> fitresult out" where
  "fitbetter curve_fit xdata ydata fitfunc fitparams domain showfit showstartfit
      showdata label mark_data mark_fit show_diagnostics =
     (let (fitdatax, fitdatay) =
            (case domain of Some d \<Rightarrow> selectdomain xdata ydata d | None \<Rightarrow> (xdata, ydata));
          startparams = fitparams
      in bind_out ([CurveFitCall startparams],
                   curve_fit fitfunc fitdatax fitdatay startparams)
           (\<lambda>(bestfitparams, covmatrix).
         bind_out (case covmatrix of
                     CovMatrix m \<Rightarrow> ret (Some (map sqrt (np_diag m)))
                   | CovIndeterminate \<Rightarrow>
                       ([PrintCov covmatrix,
                         Print ''Error encountered in calculating errors on fit parameters. This may result from a very flat parameter space''],
                        Inr None))
           (\<lambda>fitparam_errors.
         bind_out (if showfit
                   then plot_better fitdatax fitfunc startparams bestfitparams showdata
                          showstartfit label mark_data mark_fit
                   else ret ()) (\<lambda>_.
           if show_diagnostics
           then (case fitparam_errors of
                   None \<Rightarrow> raise UnboundLocalError
                 | Some errs \<Rightarrow> ret (ParamsErrors bestfitparams errs))
           else ret (Params bestfitparams)))))"


subsection \<open>InitialGuessHeuristics\<close>

text \<open>Python's \<open>max\<close> and \<open>min\<close> of a sequence, and \<^verbatim>\<open>np.argmax\<close>: the first index of the maximum.\<close>

definition pymax :: "real list \<Rightarrow> error + real" where
  "pymax xs = (case xs of [] \<Rightarrow> Inl ValueError | y # ys \<Rightarrow> Inr (foldl max y ys))"

definition pymin :: "real list \<Rightarrow> error + real" where
  "pymin xs = (case xs of [] \<Rightarrow> Inl ValueError | y # ys \<Rightarrow> Inr (foldl min y ys))"

fun argmax_loop :: "real list \<Rightarrow> nat \<Rightarrow> nat \<Rightarrow> real \<Rightarrow> nat" where
  "argmax_loop [] i best_i best = best_i"
| "argmax_loop (y # ys) i best_i best =
     (if best < y then argmax_loop ys (i + 1) i y else argmax_loop ys (i + 1) best_i best)"

definition np_argmax :: "real list \<Rightarrow> error + nat" where
  "np_argmax xs = (case xs of [] \<Rightarrow> Inl ValueError | y # ys \<Rightarrow> Inr (argmax_loop ys 1 0 y))"

text \<open>
  The block under \<^verbatim>\<open>if fitparams is None:\<close> of \<open>fitlor\<close> and of \<open>fitgauss\<close>; the two
  differ in the divisor of the width, \<open>10.\<close> and \<open>3.\<close>.
\<close>

definition peak_guess :: "real \<Rightarrow> real list \<Rightarrow> real list \<Rightarrow> error + real list" where
  "peak_guess width_div fitdatax fitdatay =
     bind_err (pyget fitdatay 0) (\<lambda>y0. bind_err (pyget_last fitdatay) (\<lambda>yl.
     bind_err (pymax fitdatay) (\<lambda>ymax. bind_err (pymin fitdatay) (\<lambda>ymin.
     bind_err (np_argmax fitdatay) (\<lambda>k. bind_err (pyget fitdatax k) (\<lambda>xk.
     bind_err (pymax fitdatax) (\<lambda>xmax. bind_err (pymin fitdatax) (\<lambda>xmin.
       Inr [(y0 + yl) / 2, ymax - ymin, xk, (xmax - xmin) / width_div]))))))))"

definition fitlor_guess :: "real list \<Rightarrow> real list \<Rightarrow> error + real list" where
  "fitlor_guess fitdatax fitdatay = peak_guess 10 fitdatax fitdatay"

definition fitgauss_guess :: "real list \<Rightarrow> real list \<Rightarrow> error + real list" where
  "fitgauss_guess fitdatax fitdatay = peak_guess 3 fitdatax fitdatay"

subsection \<open>FitWrappers\<close>

text \<open>
  The keyword arguments that a wrapper forwards through \<^verbatim>\<open>**kwarg\<close> are left at the
  defaults of the engine: \<^verbatim>\<open>showdata=True\<close>, \<^verbatim>\<open>mark_data='bo'\<close>, \<^verbatim>\<open>mark_fit='r-'\<close>.
\<close>

type_synonym leastsq_t =
  "(real list \<Rightarrow> error + real list) \<Rightarrow> real list \<Rightarrow> error + real list \<times> int"

type_synonym curve_fit_t =
  "(real list \<Rightarrow> real list option \<Rightarrow> error + real list) \<Rightarrow> real list \<Rightarrow> real list \<Rightarrow>
   real list option \<Rightarrow> error + real list \<times> cov"

definition restrict :: "real list \<Rightarrow> real list \<Rightarrow> (real \<times> real) option \<Rightarrow> real list \<times> real list" where
  "restrict xdata ydata domain =
     (case domain of Some d \<Rightarrow> selectdomain xdata ydata d | None \<Rightarrow> (xdata, ydata))"

fun zip3 :: "'a list \<Rightarrow> 'b list \<Rightarrow> 'c list \<Rightarrow> ('a \<times> 'b \<times> 'c) list" where
  "zip3 (a # as) (b # bs) (c # cs) = (a, b, c) # zip3 as bs cs"
| "zip3 _ _ _ = []"

text \<open>
  \<open>fitlor\<close>. After the fit, \<^verbatim>\<open>p1[3]=abs(p1[3])\<close> is tried; its handler
  \<^verbatim>\<open>p1[0][3]=abs(p1[0][3])\<close> indexes the number \<open>p1[0]\<close> (or an empty array) and so
  raises IndexError for every parameter vector that made the first statement fail.
  \<open>fitbetter\<close> is called with \<^verbatim>\<open>show_diagnostics=True\<close>, so what it returns is the
  pair that \<^verbatim>\<open>p1, p1_errors = ...\<close> unpacks; the other cases of the result do not
  arise.
\<close>

definition fitlor ::
  "curve_fit_t \<Rightarrow> real list \<Rightarrow> real list \<Rightarrow> real list option \<Rightarrow> (real \<times> real) option \<Rightarrow>
   bool \<Rightarrow> bool \<Rightarrow> string \<Rightarrow> bool \<Rightarrow> bool \<Rightarrow> (real list \<times> real list) out" where
  "fitlor curve_fit xdata ydata fitparams domain showfit showstartfit label debug verbose =
     (let (fitdatax, fitdatay) = restrict xdata ydata domain
      in bind_out (case fitparams of
                     None \<Rightarrow> ([], fitlor_guess fitdatax fitdatay)
                   | Some given \<Rightarrow> ret given) (\<lambda>fitparams.
         bind_out (if debug then emit [PrintParams (Some fitparams)] else ret ()) (\<lambda>_.
         bind_out (fitbetter curve_fit fitdatax fitdatay (broadcast_v2 lorfunc_better)
                     (Some fitparams) None showfit showstartfit True label ''bo'' ''r-'' True)
           (\<lambda>r. case r of
              ParamsErrors p1 p1_errors \<Rightarrow>
                bind_out (if verbose
                          then emit (map (\<lambda>(par, name, err). PrintFit name par err)
                                 (zip3 p1 [''offset'', ''amplitude'', ''center'', ''hwhm'']
                                    p1_errors))
                          else ret ()) (\<lambda>_.
                  if 3 < length p1 then ret (p1[3 := \<bar>p1 ! 3\<bar>], p1_errors)
                  else raise IndexError)
            | _ \<Rightarrow> raise ValueError))))"

definition fitgauss ::
  "leastsq_t \<Rightarrow> real list \<Rightarrow> real list \<Rightarrow> real list option \<Rightarrow> bool \<Rightarrow> (real \<times> real) option \<Rightarrow>
   bool \<Rightarrow> bool \<Rightarrow> string \<Rightarrow> fitresult out" where
  "fitgauss leastsq xdata ydata fitparams no_offset domain showfit showstartfit label =
     (let (fitdatax, fitdatay) = restrict xdata ydata domain
      in bind_out (case fitparams of
                     None \<Rightarrow> ([], fitgauss_guess fitdatax fitdatay)
                   | Some given \<Rightarrow> ret given) (\<lambda>fitparams.
           if no_offset
           then fitgeneral leastsq fitdatax fitdatay (broadcast (silent gaussfunc_nooffset))
                  (Some (if 3 < length fitparams then tl fitparams else fitparams))
                  None showfit showstartfit True label ''bo'' ''r-'' False
           else fitgeneral leastsq fitdatax fitdatay (broadcast (silent gaussfunc))
                  (Some fitparams) None showfit showstartfit True label ''bo'' ''r-'' False))"

text \<open>
  The wrappers without a heuristic. Three of them print and go on to the engine with
  \<open>fitparams\<close> still \<open>None\<close>; \<open>fit_double_lor\<close> moreover passes the keyword
  \<^verbatim>\<open>no_offset\<close>, which \<open>fitgeneral\<close> does not have, so its call is a TypeError
  whatever \<open>fitparams\<close> is. \<^verbatim>\<open>fitparams[:2]\<close> of \<open>None\<close> is a TypeError. Inside
  the engine the parameters and the points that \<open>kinfunc\<close> receives are arrays
  of floats.
\<close>

definition fit_kinetic_fraction ::
  "leastsq_t \<Rightarrow> real list \<Rightarrow> real list \<Rightarrow> real list option \<Rightarrow> bool \<Rightarrow> (real \<times> real) option \<Rightarrow>
   bool \<Rightarrow> bool \<Rightarrow> string \<Rightarrow> bool \<Rightarrow> fitresult out" where
  "fit_kinetic_fraction leastsq xdata ydata fitparams Tc_fixed domain showfit showstartfit
      label debug =
     (let (fitdatax, fitdatay) = restrict xdata ydata domain
      in bind_out (if fitparams = None
                   then emit [Print ''Please provide some initial guesses.'']
                   else ret ()) (\<lambda>_.
         bind_out (if Tc_fixed
                   then (case fitparams of
                           None \<Rightarrow> raise TypeError
                         | Some given \<Rightarrow> ret (Some (take 2 given)))
                   else ret fitparams) (\<lambda>fitparams.
           fitgeneral leastsq fitdatax fitdatay
             (broadcast (\<lambda>p x. kinfunc (map PyFloat p) (PyFloat x))) fitparams None
             showfit showstartfit True label ''bo'' ''r-'' False)))"

definition fit_double_lor ::
  "leastsq_t \<Rightarrow> real list \<Rightarrow> real list \<Rightarrow> real list option \<Rightarrow> (real \<times> real) option \<Rightarrow>
   bool \<Rightarrow> bool \<Rightarrow> string \<Rightarrow> bool \<Rightarrow> fitresult out" where
  "fit_double_lor leastsq xdata ydata fitparams domain showfit showstartfit label debug =
     (let (fitdatax, fitdatay) = restrict xdata ydata domain
      in bind_out (if fitparams = None
                   then emit [Print ''Please provide some initial guesses.'']
                   else ret ()) (\<lambda>_.
           raise TypeError))"

definition fit_N_gauss ::
  "leastsq_t \<Rightarrow> real list \<Rightarrow> real list \<Rightarrow> real list option \<Rightarrow> (real \<times> real) option \<Rightarrow>
   bool \<Rightarrow> bool \<Rightarrow> string \<Rightarrow> bool \<Rightarrow> bool \<Rightarrow> fitresult out" where
  "fit_N_gauss leastsq xdata ydata fitparams domain showfit showstartfit label debug
      no_offset =
     (let (fitdatax, fitdatay) = restrict xdata ydata domain
      in bind_out (if fitparams = None
                   then emit [Print ''Please provide some initial guesses.'']
                   else ret ()) (\<lambda>_.
           if no_offset
           then fitgeneral leastsq fitdatax fitdatay (broadcast (silent Ngaussfunc_no_offset))
                  fitparams None showfit showstartfit True label ''bo'' ''r-'' False
           else fitgeneral leastsq fitdatax fitdatay (broadcast (silent Ngaussfunc))
                  fitparams None showfit showstartfit True label ''bo'' ''r-'' False))"

text \<open>
  \<open>fit_parabola\<close> and \<open>fitpoly\<close> test \<open>fitparams\<close> first and leave with a bare
  \<^verbatim>\<open>return\<close>, whose value is \<open>None\<close>.
\<close>

fun print_coefs :: "nat \<Rightarrow> real list \<Rightarrow> real list \<Rightarrow> event list" where
  "print_coefs idx (P # ps) (errP # errs) = PrintCoef idx P errP # print_coefs (idx + 1) ps errs"
| "print_coefs idx _ _ = []"

definition fit_parabola ::
  "curve_fit_t \<Rightarrow> real list \<Rightarrow> real list \<Rightarrow> real list option \<Rightarrow> (real \<times> real) option \<Rightarrow>
   bool \<Rightarrow> bool \<Rightarrow> string \<Rightarrow> bool \<Rightarrow> bool \<Rightarrow> (real list \<times> real list) option out" where
  "fit_parabola curve_fit xdata ydata fitparams domain showfit showstartfit label debug
      verbose =
     (case fitparams of
        None \<Rightarrow> ([Print ''Please specify fit parameters in function input''], Inr None)
      | Some given \<Rightarrow>
          (let (fitdatax, fitdatay) = restrict xdata ydata domain
           in bind_out (fitbetter curve_fit fitdatax fitdatay (broadcast_v2 parabolafunc)
                          (Some given) None showfit showstartfit True label ''bo'' ''r-'' True)
                (\<lambda>r. case r of
                   ParamsErrors p1 p1err \<Rightarrow>
                     bind_out (if verbose
                               then emit (Print ''Fit results for y = a0 + a1*(x-a2)**2 with 1 sigma confidence intervals''
                                      # Print ''---------------------------------------------------------------------''
                                      # print_coefs 0 p1 p1err)
                               else ret ()) (\<lambda>_.
                       ret (Some (p1, p1err)))
                 | _ \<Rightarrow> raise ValueError)))"

definition fitpoly ::
  "curve_fit_t \<Rightarrow> real list \<Rightarrow> real list \<Rightarrow> real list option \<Rightarrow> (real \<times> real) option \<Rightarrow>
   bool \<Rightarrow> bool \<Rightarrow> string \<Rightarrow> bool \<Rightarrow> bool \<Rightarrow> (real list \<times> real list) option out" where
  "fitpoly curve_fit xdata ydata fitparams domain showfit showstartfit label debug verbose =
     (case fitparams of
        None \<Rightarrow> ([Print ''Please specify fit parameters in function input''], Inr None)
      | Some given \<Rightarrow>
          (let (fitdatax, fitdatay) = restrict xdata ydata domain
           in bind_out (fitbetter curve_fit fitdatax fitdatay
                          (broadcast_v2 (\<lambda>x p. Inr (polyfunc_v2 x p)))
                          (Some given) None showfit showstartfit True label ''bo'' ''r-'' True)
                (\<lambda>r. case r of
                   ParamsErrors p1 p1err \<Rightarrow>
                     bind_out (if verbose
                               then emit (Print ''Fit results for y = a0 + a1*x + ... with 1 sigma confidence intervals''
                                      # Print ''---------------------------------------------------------------------''
                                      # print_coefs 0 p1 p1err)
                               else ret ()) (\<lambda>_.
                       ret (Some (p1, p1err)))
                 | _ \<Rightarrow> raise ValueError)))"

text \<open>
  \<open>fitdecaysin\<close>. The Fourier part of its heuristic (\<^verbatim>\<open>scipy.fft\<close>, \<^verbatim>\<open>fftfreq\<close>, the
  search for the largest bin and \<^verbatim>\<open>cmath.phase\<close>) is the parameter \<open>fft_peak\<close>: from
  the data it gives the frequency \<^verbatim>\<open>fft_freqs[max_ind]\<close> and the phase of \<open>fft_val\<close>,
  or the exception those lines raise. \<open>decaysin3\<close> is the \<^verbatim>\<open>lambda\<close> that the wrapper
  hands to the engine; it reads \<^verbatim>\<open>fitdatax[0]\<close> when it is called.
\<close>

definition decaysin3 :: "real list \<Rightarrow> real list \<Rightarrow> real \<Rightarrow> error + real" where
  "decaysin3 fitdatax p x =
     bind_err (pyget p 0) (\<lambda>p0. bind_err (pyget p 1) (\<lambda>p1.
     bind_err (pyget p 2) (\<lambda>p2. bind_err (pyget fitdatax 0) (\<lambda>t0.
     bind_err (pyget p 3) (\<lambda>p3. bind_err (pyget p 4) (\<lambda>p4.
       Inr (p0 * sin (2 * pi * p1 * x + p2 * pi / 180) * exp (- 1 * (x - t0) / p3)
            + p4)))))))"

definition fitdecaysin_guess ::
  "(real list \<Rightarrow> real list \<Rightarrow> error + real \<times> real) \<Rightarrow> real list \<Rightarrow> real list \<Rightarrow>
   error + real list" where
  "fitdecaysin_guess fft_peak fitdatax fitdatay =
     bind_err (fft_peak fitdatax fitdatay) (\<lambda>(freq, phase).
     bind_err (pymax fitdatay) (\<lambda>ymax. bind_err (pymin fitdatay) (\<lambda>ymin.
     bind_err (pymax fitdatax) (\<lambda>xmax. bind_err (pymin fitdatax) (\<lambda>xmin.
       Inr [(ymax - ymin) / 2, freq, (phase - pi / 2) * 180 / pi, xmax - xmin,
            np_mean fitdatay])))))"

definition fitdecaysin ::
  "leastsq_t \<Rightarrow> (real list \<Rightarrow> real list \<Rightarrow> error + real \<times> real) \<Rightarrow> real list \<Rightarrow> real list \<Rightarrow>
   real list option \<Rightarrow> (real \<times> real) option \<Rightarrow> bool \<Rightarrow> bool \<Rightarrow> string \<Rightarrow> fitresult out" where
  "fitdecaysin leastsq fft_peak xdata ydata fitparams domain showfit showstartfit label =
     (let (fitdatax, fitdatay) = restrict xdata ydata domain
      in bind_out (case fitparams of
                     None \<Rightarrow> ([], fitdecaysin_guess fft_peak fitdatax fitdatay)
                   | Some given \<Rightarrow> ret given) (\<lambda>fitparams.
           fitgeneral leastsq fitdatax fitdatay (broadcast (silent (decaysin3 fitdatax)))
             (Some fitparams) None showfit showstartfit True label ''bo'' ''r-'' False))"


subsection \<open>The formulas of the specification\<close>

text \<open>
  The coefficient of determination as the specification writes it,
  \<open>1 - \<Sum>(y_observed - y_fitted)\<^sup>2 / \<Sum>(y_observed - mean(y_observed))\<^sup>2\<close>, over the
  real numbers.
\<close>

definition mean_spec :: "real list \<Rightarrow> real" where
  "mean_spec y = (\<Sum>i<length y. y ! i) / real (length y)"

definition total_sum_of_squares_spec :: "real list \<Rightarrow> real" where
  "total_sum_of_squares_spec y = (\<Sum>i<length y. (y ! i - mean_spec y)\<^sup>2)"

definition rsquare_spec :: "real list \<Rightarrow> real list \<Rightarrow> real" where
  "rsquare_spec y_observed y_fitted =
     1 - (\<Sum>i<length y_observed. (y_observed ! i - y_fitted ! i)\<^sup>2)
         / total_sum_of_squares_spec y_observed"

text \<open>The position of the first entry that equals the maximum of the sequence.\<close>

definition first_argmax :: "real list \<Rightarrow> nat" where
  "first_argmax ys = length (takeWhile (\<lambda>y. y \<noteq> Max (set ys)) ys)"

text \<open>
  The residuals of the model that the claim about \<open>fitdecaysin\<close> names: the decaying
  sine \<open>decaysin\<close> whose sixth parameter \<open>t0\<close> is the first \<open>x\<close> of the data and whose
  other five parameters are the first five entries of \<open>p\<close>, evaluated at every point
  and compared with the data.
\<close>

definition decaysin_fixed_t0_residuals ::
  "real list \<Rightarrow> real list \<Rightarrow> real list \<Rightarrow> error + real list" where
  "decaysin_fixed_t0_residuals fitdatax fitdatay p =
     bind_err (map_err (\<lambda>x. decaysin (take 5 p @ [hd fitdatax]) x) fitdatax)
       (\<lambda>values. np_sub values fitdatay)"


section \<open>Properties of the domain selector\<close>

subsection \<open>Binary search on a sorted array\<close>

lemma binsearch_left_bounds:
  "lo \<le> hi \<Longrightarrow> lo \<le> binsearch_left a v lo hi \<and> binsearch_left a v lo hi \<le> hi"
proof (induction a v lo hi rule: binsearch_left.induct)
  case (1 a v lo hi)
  show ?case
  proof (cases "lo < hi")
    case False
    with "1.prems" show ?thesis by (simp add: binsearch_left.simps)
  next
    case True
    define mid where "mid = lo + (hi - lo) div 2"
    have m: "lo \<le> mid" "mid < hi" using True by (auto simp: mid_def)
    show ?thesis
    proof (cases "a ! mid < v")
      case True
      have "mid + 1 \<le> binsearch_left a v (mid + 1) hi \<and> binsearch_left a v (mid + 1) hi \<le> hi"
        using "1.IH"(1) [OF \<open>lo < hi\<close> mid_def True] m by simp
      then show ?thesis using \<open>lo < hi\<close> True m
        by (subst (1 2) binsearch_left.simps) (simp add: mid_def [symmetric] Let_def)
    next
      case False
      have "lo \<le> binsearch_left a v lo mid \<and> binsearch_left a v lo mid \<le> mid"
        using "1.IH"(2) [OF \<open>lo < hi\<close> mid_def False] m by simp
      then show ?thesis using \<open>lo < hi\<close> False m
        by (subst (1 2) binsearch_left.simps) (simp add: mid_def [symmetric] Let_def)
    qed
  qed
qed

lemma binsearch_left_sorted:
  "sorted a \<Longrightarrow> lo \<le> hi \<Longrightarrow> hi \<le> length a \<Longrightarrow>
   \<forall>i<lo. a ! i < v \<Longrightarrow> \<forall>i. hi \<le> i \<and> i < length a \<longrightarrow> v \<le> a ! i \<Longrightarrow>
   (\<forall>i<binsearch_left a v lo hi. a ! i < v) \<and>
   (\<forall>i. binsearch_left a v lo hi \<le> i \<and> i < length a \<longrightarrow> v \<le> a ! i)"
proof (induction a v lo hi rule: binsearch_left.induct)
  case (1 a v lo hi)
  show ?case
  proof (cases "lo < hi")
    case False
    with "1.prems" show ?thesis by (simp add: binsearch_left.simps)
  next
    case True
    define mid where "mid = lo + (hi - lo) div 2"
    have m: "lo \<le> mid" "mid < hi" using True by (auto simp: mid_def)
    show ?thesis
    proof (cases "a ! mid < v")
      case lt: True
      have below: "\<forall>i<mid + 1. a ! i < v"
      proof (intro allI impI)
        fix i assume "i < mid + 1"
        then have "i \<le> mid" by simp
        then have "a ! i \<le> a ! mid"
          using \<open>sorted a\<close> m "1.prems"(3) by (simp add: sorted_nth_mono)
        with lt show "a ! i < v" by simp
      qed
      have "(\<forall>i<binsearch_left a v (mid + 1) hi. a ! i < v) \<and>
            (\<forall>i. binsearch_left a v (mid + 1) hi \<le> i \<and> i < length a \<longrightarrow> v \<le> a ! i)"
        using "1.IH"(1) [OF True mid_def lt \<open>sorted a\<close> _ "1.prems"(3) below "1.prems"(5)] m
        by simp
      then show ?thesis using True lt
        by (subst (1 2) binsearch_left.simps) (simp add: mid_def [symmetric] Let_def)
    next
      case ge: False
      have above: "\<forall>i. mid \<le> i \<and> i < length a \<longrightarrow> v \<le> a ! i"
      proof (intro allI impI)
        fix i assume "mid \<le> i \<and> i < length a"
        then have "a ! mid \<le> a ! i"
          using \<open>sorted a\<close> by (simp add: sorted_nth_mono)
        with ge show "v \<le> a ! i" by simp
      qed
      have "mid \<le> length a" using m "1.prems"(3) by simp
      have "(\<forall>i<binsearch_left a v lo mid. a ! i < v) \<and>
            (\<forall>i. binsearch_left a v lo mid \<le> i \<and> i < length a \<longrightarrow> v \<le> a ! i)"
        using "1.IH"(2) [OF True mid_def ge \<open>sorted a\<close> m(1) \<open>mid \<le> length a\<close> "1.prems"(4) above]
        by simp
      then show ?thesis using True ge
        by (subst (1 2) binsearch_left.simps) (simp add: mid_def [symmetric] Let_def)
    qed
  qed
qed

lemma sorted_key_filter_take:
  "sorted (map f zs) \<Longrightarrow>
   filter (\<lambda>z. f z < (v::real)) zs = take (length (filter (\<lambda>z. f z < v) zs)) zs"
proof (induction zs)
  case Nil
  then show ?case by simp
next
  case (Cons z zs)
  show ?case
  proof (cases "f z < v")
    case True
    with Cons show ?thesis by simp
  next
    case False
    have "\<forall>y\<in>set zs. \<not> f y < v" using Cons.prems False by auto
    then have "filter (\<lambda>z. f z < v) zs = []" by (simp add: filter_empty_conv)
    with False show ?thesis by simp
  qed
qed

lemma sorted_key_filter_drop:
  "sorted (map f zs) \<Longrightarrow>
   filter (\<lambda>z. (v::real) \<le> f z) zs = drop (length (filter (\<lambda>z. f z < v) zs)) zs"
proof (induction zs)
  case Nil
  then show ?case by simp
next
  case (Cons z zs)
  show ?case
  proof (cases "f z < v")
    case True
    with Cons show ?thesis by simp
  next
    case False
    have a: "\<forall>y\<in>set zs. \<not> f y < v" using Cons.prems False by auto
    then have "filter (\<lambda>z. f z < v) zs = []" by (simp add: filter_empty_conv)
    moreover have "filter (\<lambda>z. v \<le> f z) zs = zs" using a by (simp add: filter_id_conv not_less)
    ultimately show ?thesis using False by simp
  qed
qed

lemma searchsorted_count:
  assumes "sorted a"
  shows "searchsorted a v = length (filter (\<lambda>x. x < v) a)"
proof -
  define r where "r = searchsorted a v"
  have b: "r \<le> length a"
    using binsearch_left_bounds [of 0 "length a" a v] by (simp add: r_def searchsorted_def)
  have c: "(\<forall>i<r. a ! i < v) \<and> (\<forall>i. r \<le> i \<and> i < length a \<longrightarrow> v \<le> a ! i)"
    unfolding r_def searchsorted_def
    by (rule binsearch_left_sorted [OF assms]) simp_all
  have "a = take r a @ drop r a" by simp
  then have "filter (\<lambda>x. x < v) a = filter (\<lambda>x. x < v) (take r a) @ filter (\<lambda>x. x < v) (drop r a)"
    by (metis filter_append)
  moreover have "filter (\<lambda>x. x < v) (take r a) = take r a"
    using c b by (auto simp: filter_id_conv in_set_conv_nth)
  moreover have "filter (\<lambda>x. x < v) (drop r a) = []"
    using c b by (auto simp: filter_empty_conv in_set_conv_nth not_less)
  ultimately have "length (filter (\<lambda>x. x < v) a) = r" using b by simp
  then show ?thesis by (simp add: r_def)
qed

lemma length_filter_mono:
  "(\<And>x. P x \<Longrightarrow> Q x) \<Longrightarrow> length (filter P xs) \<le> length (filter Q xs)"
  by (induction xs) auto

lemma sorted_key_slice:
  assumes "sorted (map f zs)"
  shows "slice zs (length (filter (\<lambda>z. f z < lo) zs)) (length (filter (\<lambda>z. f z < (hi::real)) zs))
         = filter (\<lambda>z. lo \<le> f z \<and> f z < hi) zs"
proof -
  define i0 where "i0 = length (filter (\<lambda>z. f z < lo) zs)"
  define i1 where "i1 = length (filter (\<lambda>z. f z < hi) zs)"
  have dr: "filter (\<lambda>z. lo \<le> f z) zs = drop i0 zs"
    unfolding i0_def by (rule sorted_key_filter_drop [OF assms])
  have tk: "filter (\<lambda>z. f z < lo) zs = take i0 zs"
    unfolding i0_def by (rule sorted_key_filter_take [OF assms])
  have sd: "sorted (map f (drop i0 zs))"
    using assms by (simp add: drop_map [symmetric] sorted_wrt_drop)
  have "filter (\<lambda>z. lo \<le> f z \<and> f z < hi) zs = filter (\<lambda>z. f z < hi) (filter (\<lambda>z. lo \<le> f z) zs)"
    by (simp add: conj_commute)
  also have "\<dots> = filter (\<lambda>z. f z < hi) (drop i0 zs)" by (simp add: dr)
  also have "\<dots> = take (length (filter (\<lambda>z. f z < hi) (drop i0 zs))) (drop i0 zs)"
    by (rule sorted_key_filter_take [OF sd])
  finally have main: "filter (\<lambda>z. lo \<le> f z \<and> f z < hi) zs
      = take (length (filter (\<lambda>z. f z < hi) (drop i0 zs))) (drop i0 zs)" .
  have len: "length (filter (\<lambda>z. f z < hi) (drop i0 zs)) = i1 - i0"
  proof (cases "lo \<le> hi")
    case True
    have "set (take i0 zs) = {z \<in> set zs. f z < lo}"
      using tk by (metis set_filter)
    then have "\<forall>z\<in>set (take i0 zs). f z < lo" by simp
    then have "filter (\<lambda>z. f z < hi) (take i0 zs) = take i0 zs"
      using True by (auto simp: filter_id_conv)
    moreover have "filter (\<lambda>z. f z < hi) zs
        = filter (\<lambda>z. f z < hi) (take i0 zs) @ filter (\<lambda>z. f z < hi) (drop i0 zs)"
      by (metis append_take_drop_id filter_append)
    moreover have "i0 \<le> length zs" unfolding i0_def by (rule length_filter_le)
    ultimately have "i1 = i0 + length (filter (\<lambda>z. f z < hi) (drop i0 zs))"
      unfolding i1_def by simp
    then show ?thesis by simp
  next
    case False
    have "set (drop i0 zs) = {z \<in> set zs. lo \<le> f z}"
      using dr by (metis set_filter)
    then have "\<forall>z\<in>set (drop i0 zs). lo \<le> f z" by simp
    then have "filter (\<lambda>z. f z < hi) (drop i0 zs) = []"
      using False by (auto simp: filter_empty_conv)
    moreover have "i1 \<le> i0"
      unfolding i0_def i1_def using False by (intro length_filter_mono) simp
    ultimately show ?thesis by simp
  qed
  show ?thesis
    using main len by (simp add: slice_def i0_def i1_def)
qed

lemma slice_zip:
  "slice (zip xs ys) i j = zip (slice xs i j) (slice ys i j)"
  by (simp add: slice_def take_zip drop_zip)

lemma length_slice_eq:
  "length xs = length ys \<Longrightarrow> length (slice xs i j) = length (slice ys i j)"
  by (simp add: slice_def)

lemma selectdomain_filter:
  assumes "sorted xdata" and "length xdata = length ydata"
  shows "selectdomain xdata ydata (lo, hi) =
          (filter (\<lambda>x. lo \<le> x \<and> x < hi) xdata,
           map snd (filter (\<lambda>z. lo \<le> fst z \<and> fst z < hi) (zip xdata ydata)))"
proof -
  define i0 where "i0 = searchsorted xdata lo"
  define i1 where "i1 = searchsorted xdata hi"
  have c0: "i0 = length (filter (\<lambda>x. x < lo) xdata)"
    unfolding i0_def by (rule searchsorted_count [OF assms(1)])
  have c1: "i1 = length (filter (\<lambda>x. x < hi) xdata)"
    unfolding i1_def by (rule searchsorted_count [OF assms(1)])
  have mz: "map fst (zip xdata ydata) = xdata" using assms(2) by simp
  have fz: "length (filter (\<lambda>z. fst z < v) (zip xdata ydata)) = length (filter (\<lambda>x. x < v) xdata)" for v
  proof -
    have "filter (\<lambda>x. x < v) (map fst (zip xdata ydata)) = map fst (filter (\<lambda>z. fst z < v) (zip xdata ydata))"
      by (simp add: filter_map comp_def)
    then show ?thesis using mz by (metis length_map)
  qed
  have x: "slice xdata i0 i1 = filter (\<lambda>x. lo \<le> x \<and> x < hi) xdata"
    using sorted_key_slice [of "\<lambda>x. x" xdata lo hi] assms(1) by (simp add: c0 c1)
  have "slice (zip xdata ydata) i0 i1 = filter (\<lambda>z. lo \<le> fst z \<and> fst z < hi) (zip xdata ydata)"
    using sorted_key_slice [of fst "zip xdata ydata" lo hi] assms(1) mz by (simp add: c0 c1 fz)
  then have "map snd (filter (\<lambda>z. lo \<le> fst z \<and> fst z < hi) (zip xdata ydata))
      = map snd (zip (slice xdata i0 i1) (slice ydata i0 i1))"
    by (simp add: slice_zip)
  also have "\<dots> = slice ydata i0 i1"
    using length_slice_eq [OF assms(2), of i0 i1] by simp
  finally show ?thesis
    using x by (simp add: selectdomain_def i0_def i1_def)
qed

lemma sorted_hd_le: "sorted xs \<Longrightarrow> x \<in> set xs \<Longrightarrow> hd xs \<le> (x::real)"
  by (cases xs) auto

lemma sorted_le_last: "sorted xs \<Longrightarrow> x \<in> set xs \<Longrightarrow> (x::real) \<le> last xs"
  by (induction xs) auto


text \<open>
  Claim C1, as the code has it. For equal-length \<open>xdata\<close>, \<open>ydata\<close> with \<open>xdata\<close>
  sorted ascending and every domain \<open>(lo, hi)\<close>, \<open>selectdomain\<close> returns exactly the
  entries of \<open>xdata\<close> with \<open>lo \<le> x < hi\<close>, in order, together with the entries
  of \<open>ydata\<close> at the same indices. The range is half-open: the original sequences
  come back unchanged when \<open>lo \<le> x[0]\<close> and \<open>x[last] < hi\<close>, while the range
  \<open>(x[0], x[last])\<close> keeps only the entries strictly below \<open>x[last]\<close>.
\<close>

theorem selectdomain_exact:
  assumes "sorted xdata" and "length xdata = length ydata"
  shows "selectdomain xdata ydata (lo, hi) =
          (filter (\<lambda>x. lo \<le> x \<and> x < hi) xdata,
           map snd (filter (\<lambda>z. lo \<le> fst z \<and> fst z < hi) (zip xdata ydata)))
       \<and> (xdata \<noteq> [] \<and> lo \<le> hd xdata \<and> last xdata < hi \<longrightarrow>
            selectdomain xdata ydata (lo, hi) = (xdata, ydata))
       \<and> (xdata \<noteq> [] \<longrightarrow>
            fst (selectdomain xdata ydata (hd xdata, last xdata))
              = filter (\<lambda>x. x < last xdata) xdata)"
proof (intro conjI impI)
  show "selectdomain xdata ydata (lo, hi) =
          (filter (\<lambda>x. lo \<le> x \<and> x < hi) xdata,
           map snd (filter (\<lambda>z. lo \<le> fst z \<and> fst z < hi) (zip xdata ydata)))"
    by (rule selectdomain_filter [OF assms])
next
  assume a: "xdata \<noteq> [] \<and> lo \<le> hd xdata \<and> last xdata < hi"
  have all: "lo \<le> x \<and> x < hi" if "x \<in> set xdata" for x
    using sorted_hd_le [OF assms(1) that] sorted_le_last [OF assms(1) that] a by linarith
  have f1: "filter (\<lambda>x. lo \<le> x \<and> x < hi) xdata = xdata"
    unfolding filter_id_conv using all by blast
  have "\<forall>z\<in>set (zip xdata ydata). lo \<le> fst z \<and> fst z < hi"
  proof
    fix z assume "z \<in> set (zip xdata ydata)"
    then have "fst z \<in> set xdata"
      using set_zip_leftD [of "fst z" "snd z" xdata ydata] by simp
    then show "lo \<le> fst z \<and> fst z < hi" by (rule all)
  qed
  then have f2: "filter (\<lambda>z. lo \<le> fst z \<and> fst z < hi) (zip xdata ydata) = zip xdata ydata"
    unfolding filter_id_conv by blast
  have "map snd (zip xdata ydata) = ydata" using assms(2) by simp
  then show "selectdomain xdata ydata (lo, hi) = (xdata, ydata)"
    unfolding selectdomain_filter [OF assms, of lo hi] f1 f2 by simp
next
  assume ne: "xdata \<noteq> []"
  have "filter (\<lambda>x. hd xdata \<le> x \<and> x < last xdata) xdata = filter (\<lambda>x. x < last xdata) xdata"
  proof (rule filter_cong [OF refl])
    fix x assume "x \<in> set xdata"
    then show "(hd xdata \<le> x \<and> x < last xdata) = (x < last xdata)"
      using sorted_hd_le [OF assms(1)] by blast
  qed
  then show "fst (selectdomain xdata ydata (hd xdata, last xdata)) = filter (\<lambda>x. x < last xdata) xdata"
    unfolding selectdomain_filter [OF assms, of "hd xdata" "last xdata"] by simp
qed

theorem selectdomain_exact_witness:
  "sorted [1, 2, 3 :: real] \<and> length [1, 2, 3 :: real] = length [10, 20, 30 :: real]
   \<and> selectdomain [1, 2, 3] [10, 20, 30 :: real] (2, 4) = ([2, 3], [20, 30])
   \<and> selectdomain [1, 2, 3] [10, 20, 30 :: real] (0, 4) = ([1, 2, 3], [10, 20, 30])
   \<and> fst (selectdomain [1, 2, 3] [10, 20, 30 :: real] (1, 3)) = [1, 2]"
  using selectdomain_exact [of "[1, 2, 3]" "[10, 20, 30 :: real]" 2 4]
        selectdomain_exact [of "[1, 2, 3]" "[10, 20, 30 :: real]" 0 4]
  by simp


text \<open>
  The last part of claim C1 as the specification words it, that restricting to
  \<open>(x[0], x[last])\<close> returns the original sequences, fails: the upper bound is
  exclusive, so the last point is cut off.
\<close>

theorem selectdomain_full_range_counterexample:
  "sorted [1, 2, 3 :: real] \<and> length [1, 2, 3 :: real] = length [10, 20, 30 :: real]
   \<and> selectdomain [1, 2, 3] [10, 20, 30 :: real] (hd [1, 2, 3], last [1, 2, 3])
       = ([1, 2], [10, 20])
   \<and> selectdomain [1, 2, 3] [10, 20, 30 :: real] (hd [1, 2, 3], last [1, 2, 3])
       \<noteq> ([1, 2, 3], [10, 20, 30])"
  by (simp add: selectdomain_def searchsorted_def slice_def binsearch_left.simps)

section \<open>Properties of the lineshape models\<close>

subsection \<open>Polynomials\<close>

lemma polyfunc_loop_sum:
  "polyfunc_loop p x n y = y + (\<Sum>k<length p. p ! k * x ^ (n + k))"
proof (induction p arbitrary: n y)
  case Nil
  then show ?case by simp
next
  case (Cons P ps)
  have "(\<Sum>k<length (P # ps). (P # ps) ! k * x ^ (n + k))
      = P * x ^ n + (\<Sum>k<length ps. ps ! k * x ^ (Suc n + k))"
    by (simp add: sum.lessThan_Suc_shift del: sum.lessThan_Suc)
  then show ?case
    using Cons.IH [of "Suc n" "y + P * x ^ n"] by simp
qed

lemma polyfunc_v2_loop_sum:
  "polyfunc_v2_loop x p n y = y + (\<Sum>k<length p. p ! k * x ^ (n + k))"
proof (induction p arbitrary: n y)
  case Nil
  then show ?case by simp
next
  case (Cons P ps)
  have "(\<Sum>k<length (P # ps). (P # ps) ! k * x ^ (n + k))
      = P * x ^ n + (\<Sum>k<length ps. ps ! k * x ^ (Suc n + k))"
    by (simp add: sum.lessThan_Suc_shift del: sum.lessThan_Suc)
  then show ?case
    using Cons.IH [of "Suc n" "y + P * x ^ n"] by simp
qed

text \<open>
  Claim C9. For every parameter vector \<open>p\<close> and every \<open>x\<close>, the parameters-first
  polynomial \<open>polyfunc(p, x)\<close> and the variadic \<open>polyfunc_v2(x, *p)\<close> return the same
  value, which is the polynomial \<open>p[0] + p[1]*x + p[2]*x**2 + ...\<close> of order
  \<open>len(p) - 1\<close>.
\<close>

theorem polyfunc_conventions_agree:
  "polyfunc p x = polyfunc_v2 x p \<and> polyfunc p x = (\<Sum>k<length p. p ! k * x ^ k)"
  by (simp add: polyfunc_def polyfunc_v2_def polyfunc_loop_sum polyfunc_v2_loop_sum)

subsection \<open>Kinetic inductance\<close>

text \<open>
  At a zero divisor, \<open>Tc = 0\<close> or \<open>(x/Tc)\<^sup>4 = 1\<close>, \<open>kinfunc\<close> returns no value.
\<close>

lemma kinfunc_zero_divisor:
  assumes "num_val Tc = 0 \<or> (num_val x / num_val Tc) ^ 4 = 1"
      and "\<not> (is_PyInt x \<and> is_PyInt Tc)"
  shows "kinfunc [f0, alpha, Tc] x = ([], Inl ZeroDivisionError)"
  using assms
  by (cases x; cases Tc) (auto simp: kinfunc_def pyget_def bind_err_def float_div_def)




subsection \<open>Sums of Gaussians\<close>

text \<open>
  What the two functions compute. With \<open>3N + 1\<close> parameters \<open>Ngaussfunc\<close> is the
  offset plus the \<open>N\<close> peaks. With \<open>3N\<close> parameters \<open>Ngaussfunc_no_offset\<close> counts
  \<open>N - 1\<close> peaks and reads each of them one place to the right, at
  \<open>p[3n+1], p[3n+2], p[3n+3]\<close>: the first entry is never read.
\<close>

lemma Ngauss_loop_sum:
  "\<forall>n\<in>set ns. 3 * n + 3 < length p \<Longrightarrow>
   Ngauss_loop p x ns acc
     = Inr (acc + sum_list (map (\<lambda>n. p ! (3 * n + 1)
              * exp (- (1 / 2) * ((x - p ! (3 * n + 2)) / p ! (3 * n + 3))\<^sup>2)) ns))"
proof (induction ns arbitrary: acc)
  case Nil
  then show ?case by simp
next
  case (Cons n ns)
  have r: "3 * n + 1 < length p" "3 * n + 2 < length p" "3 * n + 3 < length p"
    using Cons.prems by auto
  have t: "\<forall>m\<in>set ns. 3 * m + 3 < length p" using Cons.prems by simp
  show ?case
    using r by (simp add: bind_err_def pyget_def Cons.IH [OF t] power_divide add.assoc)
qed

lemma Ngauss_loop_range:
  assumes "3 * N < length p"
  shows "Ngauss_loop p x [0..<N] acc
     = Inr (acc + (\<Sum>n<N. p ! (3 * n + 1)
              * exp (- (1 / 2) * ((x - p ! (3 * n + 2)) / p ! (3 * n + 3))\<^sup>2)))"
proof -
  have "\<forall>n\<in>set [0..<N]. 3 * n + 3 < length p" using assms by auto
  then show ?thesis
    by (simp add: Ngauss_loop_sum interv_sum_list_conv_sum_set_nat atLeast0LessThan)
qed

lemma Ngaussfunc_sum:
  assumes "length p = 3 * N + 1"
  shows "Ngaussfunc p x
     = Inr (p ! 0 + (\<Sum>n<N. p ! (3 * n + 1)
              * exp (- (1 / 2) * ((x - p ! (3 * n + 2)) / p ! (3 * n + 3))\<^sup>2)))"
proof -
  have "Ngauss_N p = N" using assms by (simp add: Ngauss_N_def)
  moreover have "3 * N < length p" using assms by simp
  ultimately show ?thesis
    using assms by (simp add: Ngaussfunc_def bind_err_def pyget_def Ngauss_loop_range)
qed

lemma Ngaussfunc_no_offset_sum:
  assumes "length p = 3 * N"
  shows "Ngaussfunc_no_offset p x
     = Inr (\<Sum>n<N - 1. p ! (3 * n + 1)
              * exp (- (1 / 2) * ((x - p ! (3 * n + 2)) / p ! (3 * n + 3))\<^sup>2))"
proof (cases "N = 0")
  case True
  then show ?thesis using assms by (simp add: Ngaussfunc_no_offset_def Ngauss_N_def)
next
  case False
  then have "Ngauss_N p = N - 1" using assms by (simp add: Ngauss_N_def)
  moreover have "3 * (N - 1) < length p" using assms False by simp
  ultimately show ?thesis
    by (simp add: Ngaussfunc_no_offset_def Ngauss_loop_range)
qed

text \<open>
  Claim C2 at a single peak \<open>[A, c, s]\<close>: \<open>Ngaussfunc_no_offset\<close> returns \<open>0\<close> for
  every \<open>x\<close>, where the claim, and the function's docstring, have
  \<open>A * exp(-0.5 * ((x - c)/s)**2)\<close>; at \<open>[1, 0, 1]\<close> and \<open>x = 0\<close> that is \<open>1\<close>.
\<close>

theorem Ngaussfunc_no_offset_single_peak:
  "Ngaussfunc_no_offset [A, c, s] x = Inr 0
   \<and> Ngaussfunc_no_offset [1, 0, 1] 0 \<noteq> Inr (1 * exp (- (1 / 2) * ((0 - 0) / 1)\<^sup>2))"
  by (simp add: Ngaussfunc_no_offset_def Ngauss_N_def)

section \<open>Properties of the coefficient of determination\<close>

lemma sum_list_map_nth:
  "sum_list (map f xs) = (\<Sum>i<length xs. f (xs ! i))"
proof -
  have "sum_list (map f xs) = (\<Sum>i = 0..<length (map f xs). map f xs ! i)"
    by (rule sum_list_sum_nth)
  also have "\<dots> = (\<Sum>i<length xs. f (xs ! i))"
    by (simp add: atLeast0LessThan)
  finally show ?thesis .
qed

lemma np_mean_spec: "np_mean y = mean_spec y"
  using sum_list_map_nth [of "\<lambda>v. v" y] by (simp add: np_mean_def mean_spec_def)

lemma total_sum_spec:
  "sum_list (map (\<lambda>v. (v - np_mean y)\<^sup>2) y) = total_sum_of_squares_spec y"
  by (simp add: sum_list_map_nth total_sum_of_squares_spec_def np_mean_spec)

lemma residual_sum_spec:
  assumes "length y = length f"
  shows "sum_list (map (\<lambda>r. r\<^sup>2) (map (\<lambda>(a, b). a - b) (zip y f)))
           = (\<Sum>i<length y. (y ! i - f ! i)\<^sup>2)"
proof -
  have "sum_list (map (\<lambda>r. r\<^sup>2) (map (\<lambda>(a, b). a - b) (zip y f)))
        = sum_list (map (\<lambda>z. (fst z - snd z)\<^sup>2) (zip y f))"
    by (simp add: comp_def case_prod_beta)
  also have "\<dots> = (\<Sum>i<length (zip y f). (fst (zip y f ! i) - snd (zip y f ! i))\<^sup>2)"
    by (rule sum_list_map_nth)
  also have "\<dots> = (\<Sum>i<length y. (y ! i - f ! i)\<^sup>2)"
    using assms by simp
  finally show ?thesis .
qed

lemma get_rsquare_unfold:
  assumes "length y = length f"
  shows "get_rsquare y f
     = Inr (np_rsub 1 (np_div (\<Sum>i<length y. (y ! i - f ! i)\<^sup>2) (total_sum_of_squares_spec y)))"
  using assms
  by (simp add: get_rsquare_def np_sub_def bind_err_def total_sum_spec residual_sum_spec
        del: map_map)

text \<open>
  With a total sum of squares of zero (constant or empty data) the quotient is a
  division by zero, and the result is \<open>nan\<close> or \<open>-inf\<close>, never a number.
\<close>

lemma get_rsquare_degenerate:
  assumes "length y_observed = length y_fitted"
      and "total_sum_of_squares_spec y_observed = 0"
  shows "get_rsquare y_observed y_fitted = Inr NaN \<or> get_rsquare y_observed y_fitted = Inr NegInf"
proof -
  have "0 \<le> (\<Sum>i<length y_observed. (y_observed ! i - y_fitted ! i)\<^sup>2)"
    by (simp add: sum_nonneg)
  then show ?thesis
    using assms by (auto simp: get_rsquare_unfold np_div_def)
qed

text \<open>
  Claim C5, as the code has it. For equal-length \<open>y_observed\<close> and \<open>y_fitted\<close> whose
  total sum of squares \<open>\<Sum>(y_observed - mean(y_observed))\<^sup>2\<close> is not zero,
  \<open>get_rsquare\<close> returns \<open>1 - \<Sum>(y_observed - y_fitted)\<^sup>2 / \<Sum>(y_observed - mean(y_observed))\<^sup>2\<close>;
  so a fit equal to the data gives exactly \<open>1\<close> and a fit equal to the mean
  everywhere gives exactly \<open>0\<close>.
\<close>

theorem get_rsquare_nondegenerate:
  assumes "length y_observed = length y_fitted"
      and "total_sum_of_squares_spec y_observed \<noteq> 0"
  shows "get_rsquare y_observed y_fitted = Inr (Finite (rsquare_spec y_observed y_fitted))
       \<and> get_rsquare y_observed y_observed = Inr (Finite 1)
       \<and> get_rsquare y_observed (replicate (length y_observed) (mean_spec y_observed))
           = Inr (Finite 0)"
proof (intro conjI)
  show "get_rsquare y_observed y_fitted = Inr (Finite (rsquare_spec y_observed y_fitted))"
    using assms by (simp add: get_rsquare_unfold np_div_def rsquare_spec_def)
  show "get_rsquare y_observed y_observed = Inr (Finite 1)"
    using assms(2) by (simp add: get_rsquare_unfold np_div_def)
  have "(\<Sum>i<length y_observed.
            (y_observed ! i - replicate (length y_observed) (mean_spec y_observed) ! i)\<^sup>2)
        = total_sum_of_squares_spec y_observed"
    by (simp add: total_sum_of_squares_spec_def)
  then show "get_rsquare y_observed (replicate (length y_observed) (mean_spec y_observed))
           = Inr (Finite 0)"
    using assms(2) by (simp add: get_rsquare_unfold np_div_def)
qed

theorem get_rsquare_nondegenerate_witness:
  "length [1, 3 :: real] = length [1, 2 :: real]
   \<and> total_sum_of_squares_spec [1, 3] \<noteq> 0
   \<and> get_rsquare [1, 3] [1, 2] = Inr (Finite (1 / 2))
   \<and> get_rsquare [1, 3] [1, 3] = Inr (Finite 1)
   \<and> get_rsquare [1, 3] [2, 2] = Inr (Finite 0)"
proof -
  have l: "length [1, 3 :: real] = length [1, 2 :: real]" by simp
  have t: "total_sum_of_squares_spec [1, 3] \<noteq> 0"
    by (simp add: total_sum_of_squares_spec_def mean_spec_def lessThan_Suc numeral_2_eq_2)
  have r: "rsquare_spec [1, 3] [1, 2] = 1 / 2"
    by (simp add: rsquare_spec_def total_sum_of_squares_spec_def mean_spec_def lessThan_Suc numeral_2_eq_2)
  have m: "replicate (length [1, 3 :: real]) (mean_spec [1, 3]) = [2, 2]"
    by (simp add: mean_spec_def lessThan_Suc numeral_2_eq_2)
  show ?thesis
    using get_rsquare_nondegenerate [OF l t] l t r m by simp
qed

text \<open>
  Claim C5 for every pair of sequences fails on constant data: the perfect fit of
  \<open>[2, 2]\<close>, which is also its mean everywhere, has \<open>0/0\<close>, and the result is
  \<open>nan\<close>, neither \<open>1\<close> nor \<open>0\<close>.
\<close>

theorem get_rsquare_constant_data_counterexample:
  "length [2, 2 :: real] = length [2, 2 :: real]
   \<and> replicate (length [2, 2 :: real]) (mean_spec [2, 2]) = [2, 2]
   \<and> get_rsquare [2, 2] [2, 2] = Inr NaN
   \<and> get_rsquare [2, 2] [2, 2] \<noteq> Inr (Finite 1)
   \<and> get_rsquare [2, 2] [2, 2] \<noteq> Inr (Finite 0)"
  by (simp add: get_rsquare_def np_sub_def bind_err_def np_mean_def np_div_def mean_spec_def
        lessThan_Suc numeral_2_eq_2)

section \<open>Properties of the engine and of the wrappers\<close>

lemma bind_out_Inr:
  "snd (bind_out m f) = Inr b \<Longrightarrow> \<exists>a. snd m = Inr a \<and> snd (f a) = Inr b"
  by (cases m) (auto simp: bind_out_def split: sum.splits prod.splits)

lemma bind_out_ret: "bind_out (ret a) f = f a"
  by (cases "f a") (simp add: bind_out_def ret_def)

lemma bind_out_raise: "bind_out (raise e) f = raise e"
  by (simp add: bind_out_def raise_def)

lemma bind_out_emit: "bind_out (emit evs) f = (evs @ fst (f ()), snd (f ()))"
  by (cases "f ()") (simp add: bind_out_def emit_def)

lemma restrict_cases:
  obtains fitdatax fitdatay where "restrict xdata ydata domain = (fitdatax, fitdatay)"
  by (cases "restrict xdata ydata domain") auto

subsection \<open>Covariance that cannot be turned into errors\<close>

text \<open>
  When the optimizer answers with best parameters and no usable covariance,
  \<open>fitbetter\<close> prints its message. Asked for the parameters alone, it then returns
  them.
\<close>

lemma fitbetter_indeterminate_covariance_params_only:
  "fitbetter (\<lambda>f x y p. Inr (best, CovIndeterminate)) xdata ydata fitfunc fitparams domain
     False showstartfit showdata label mark_data mark_fit False
   = ([CurveFitCall fitparams, PrintCov CovIndeterminate,
       Print ''Error encountered in calculating errors on fit parameters. This may result from a very flat parameter space''],
      Inr (Params best))"
  by (simp add: fitbetter_def bind_out_def raise_def ret_def split: prod.splits option.splits)

text \<open>
  Claim C3 at \<^verbatim>\<open>show_diagnostics=True\<close>, the way every wrapper of the library calls
  \<open>fitbetter\<close>: after the message the call ends with UnboundLocalError, for every
  vector of best parameters, and returns nothing, where the claim has it return the
  best-fit parameters.
\<close>

theorem fitbetter_indeterminate_covariance:
  "fitbetter (\<lambda>f x y p. Inr (best, CovIndeterminate)) xdata ydata fitfunc fitparams domain
     False showstartfit showdata label mark_data mark_fit True
   = ([CurveFitCall fitparams, PrintCov CovIndeterminate,
       Print ''Error encountered in calculating errors on fit parameters. This may result from a very flat parameter space''],
      Inl UnboundLocalError)"
  by (simp add: fitbetter_def bind_out_def raise_def ret_def split: prod.splits option.splits)

subsection \<open>Wrappers without a heuristic\<close>

lemma fitgeneral_None:
  "fitgeneral leastsq xdata ydata fitfunc None domain showfit showstartfit showdata label
     mark_data mark_fit show_diagnostics = ([], Inl TypeError)"
  by (simp add: fitgeneral_def raise_def split: prod.splits)

text \<open>
  Claim C4. Called without \<open>fitparams\<close>, each of the five wrappers without a
  heuristic reports the missing guesses as the first and only event, so the
  optimizer is never called, and hands no fit back: \<open>fitpoly\<close> and \<open>fit_parabola\<close>
  return \<open>None\<close> at once, and \<open>fit_double_lor\<close>, \<open>fit_N_gauss\<close> and
  \<open>fit_kinetic_fraction\<close> end with a TypeError before the optimizer is reached.
\<close>

theorem no_heuristic_wrappers_without_fitparams:
  "fit_double_lor leastsq xdata ydata None domain showfit showstartfit label debug
     = ([Print ''Please provide some initial guesses.''], Inl TypeError)
   \<and> fit_N_gauss leastsq xdata ydata None domain showfit showstartfit label debug no_offset
     = ([Print ''Please provide some initial guesses.''], Inl TypeError)
   \<and> fit_kinetic_fraction leastsq xdata ydata None Tc_fixed domain showfit showstartfit
        label debug
     = ([Print ''Please provide some initial guesses.''], Inl TypeError)
   \<and> fitpoly curve_fit xdata ydata None domain showfit showstartfit label debug verbose
     = ([Print ''Please specify fit parameters in function input''], Inr None)
   \<and> fit_parabola curve_fit xdata ydata None domain showfit showstartfit label debug verbose
     = ([Print ''Please specify fit parameters in function input''], Inr None)"
proof (intro conjI)
  obtain fx fy where r: "restrict xdata ydata domain = (fx, fy)" by (rule restrict_cases)
  show "fit_double_lor leastsq xdata ydata None domain showfit showstartfit label debug
     = ([Print ''Please provide some initial guesses.''], Inl TypeError)"
    by (simp add: fit_double_lor_def r bind_out_emit raise_def)
  show "fit_N_gauss leastsq xdata ydata None domain showfit showstartfit label debug no_offset
     = ([Print ''Please provide some initial guesses.''], Inl TypeError)"
    by (simp add: fit_N_gauss_def r bind_out_emit fitgeneral_None)
  show "fit_kinetic_fraction leastsq xdata ydata None Tc_fixed domain showfit showstartfit
        label debug
     = ([Print ''Please provide some initial guesses.''], Inl TypeError)"
    by (cases Tc_fixed)
       (simp_all add: fit_kinetic_fraction_def r bind_out_emit bind_out_ret bind_out_raise
          fitgeneral_None, simp add: raise_def)
  show "fitpoly curve_fit xdata ydata None domain showfit showstartfit label debug verbose
     = ([Print ''Please specify fit parameters in function input''], Inr None)"
    by (simp add: fitpoly_def)
  show "fit_parabola curve_fit xdata ydata None domain showfit showstartfit label debug verbose
     = ([Print ''Please specify fit parameters in function input''], Inr None)"
    by (simp add: fit_parabola_def)
qed

subsection \<open>Sign of the Lorentzian width\<close>

text \<open>
  Claim C7. Whenever \<open>fitlor\<close> returns, whatever the optimizer, the data and the
  options, the returned parameter vector has an entry at index 3 and that entry is
  not negative.
\<close>

theorem fitlor_hwhm_nonnegative:
  assumes "snd (fitlor curve_fit xdata ydata fitparams domain showfit showstartfit label
                  debug verbose) = Inr (p1, p1_errors)"
  shows "3 < length p1 \<and> 0 \<le> p1 ! 3"
proof -
  obtain fx fy where r: "restrict xdata ydata domain = (fx, fy)" by (rule restrict_cases)
  show ?thesis
    using assms unfolding fitlor_def r
    apply (simp only: Let_def prod.case)
    apply (drule bind_out_Inr, elim exE conjE)
    apply (drule bind_out_Inr, elim exE conjE)
    apply (drule bind_out_Inr, elim exE conjE)
    apply (auto simp: raise_def ret_def split: fitresult.splits if_splits dest!: bind_out_Inr)
    done
qed

theorem fitlor_hwhm_nonnegative_witness:
  "snd (fitlor (\<lambda>f x y p. Inr ([5, 3, 4, - (1 / 2)],
                  CovMatrix [[1, 0, 0, 0], [0, 1, 0, 0], [0, 0, 1, 0], [0, 0, 0, 1]]))
          [0, 1, 2] [5, 8, 5] None None False False [] False False)
     = Inr ([5, 3, 4, 1 / 2], [1, 1, 1, 1])
   \<and> 3 < length [5, 3, 4, 1 / 2 :: real] \<and> 0 \<le> [5, 3, 4, 1 / 2 :: real] ! 3"
proof -
  have h: "snd (fitlor (\<lambda>f x y p. Inr ([5, 3, 4, - (1 / 2)],
                  CovMatrix [[1, 0, 0, 0], [0, 1, 0, 0], [0, 0, 1, 0], [0, 0, 0, 1]]))
          [0, 1, 2] [5, 8, 5] None None False False [] False False)
     = Inr ([5, 3, 4, 1 / 2], [1, 1, 1, 1])"
    by (simp add: fitlor_def restrict_def fitlor_guess_def peak_guess_def pyget_def
          pyget_last_def pymax_def pymin_def np_argmax_def bind_err_def bind_out_def
          ret_def raise_def emit_def fitbetter_def np_diag_def upt_conv_Cons)
  show ?thesis
    using h fitlor_hwhm_nonnegative [OF h] by simp
qed

section \<open>Properties of the initial-guess heuristics\<close>

subsection \<open>Maximum, minimum and the position of the maximum\<close>

lemma foldl_max_Max: "foldl max y ys = Max (set (y # ys))"
proof (induction ys arbitrary: y)
  case Nil
  then show ?case by simp
next
  case (Cons z zs)
  have "foldl max y (z # zs) = Max (set (max y z # zs))" by (simp add: Cons.IH)
  also have "\<dots> = Max (set (y # z # zs))"
    by (cases "zs = []") (simp_all add: max.assoc)
  finally show ?case .
qed

lemma foldl_min_Min: "foldl min y ys = Min (set (y # ys))"
proof (induction ys arbitrary: y)
  case Nil
  then show ?case by simp
next
  case (Cons z zs)
  have "foldl min y (z # zs) = Min (set (min y z # zs))" by (simp add: Cons.IH)
  also have "\<dots> = Min (set (y # z # zs))"
    by (cases "zs = []") (simp_all add: min.assoc)
  finally show ?case .
qed

lemma pymax_Max: "ys \<noteq> [] \<Longrightarrow> pymax ys = Inr (Max (set ys))"
  by (cases ys) (simp_all add: pymax_def foldl_max_Max del: set_simps)

lemma pymin_Min: "ys \<noteq> [] \<Longrightarrow> pymin ys = Inr (Min (set ys))"
  by (cases ys) (simp_all add: pymin_def foldl_min_Min del: set_simps)

lemma argmax_loop_first:
  "argmax_loop ys i best_i best =
     (if \<forall>y\<in>set ys. y \<le> best then best_i
      else i + length (takeWhile (\<lambda>y. y \<noteq> Max (set ys)) ys))"
proof (induction ys arbitrary: i best_i best)
  case Nil
  then show ?case by simp
next
  case (Cons y ys)
  show ?case
  proof (cases "\<forall>z\<in>set ys. z \<le> y")
    case True
    have m: "Max (set (y # ys)) = y"
      using True by (intro Max_eqI) auto
    have T: "takeWhile (\<lambda>v. v \<noteq> Max (set (y # ys))) (y # ys) = []"
      unfolding m by simp
    have b: "\<forall>z\<in>set ys. z \<le> best" if "\<not> best < y"
      using True that by fastforce
    have L: "argmax_loop (y # ys) i best_i best = (if best < y then i else best_i)"
      using True b by (simp add: Cons.IH)
    have R: "(\<forall>w\<in>set (y # ys). w \<le> best) \<longleftrightarrow> \<not> best < y"
      using b by auto
    show ?thesis
      by (simp only: L R T) simp
  next
    case False
    then obtain z where z: "z \<in> set ys" "y < z" by (auto simp: not_le)
    have ne: "set ys \<noteq> {}" using z by auto
    have "z \<le> Max (set ys)" using z by (intro Max_ge) auto
    then have "y < Max (set ys)" using z(2) by (rule less_le_trans [rotated])
    then have m: "Max (set (y # ys)) = Max (set ys)" and n: "y \<noteq> Max (set ys)"
      using ne by (simp_all add: max_def)
    have T: "takeWhile (\<lambda>v. v \<noteq> Max (set (y # ys))) (y # ys)
               = y # takeWhile (\<lambda>v. v \<noteq> Max (set ys)) ys"
      unfolding m using n by simp
    have L: "argmax_loop (y # ys) i best_i best =
               (if best < y then i + 1 + length (takeWhile (\<lambda>v. v \<noteq> Max (set ys)) ys)
                else if \<forall>z\<in>set ys. z \<le> best then best_i
                else i + 1 + length (takeWhile (\<lambda>v. v \<noteq> Max (set ys)) ys))"
    proof (cases "best < y")
      case True
      have "argmax_loop (y # ys) i best_i best = argmax_loop ys (i + 1) i y"
        using True by simp
      also have "\<dots> = i + 1 + length (takeWhile (\<lambda>v. v \<noteq> Max (set ys)) ys)"
        unfolding Cons.IH using False by simp
      finally show ?thesis using True by simp
    next
      case nb: False
      have "argmax_loop (y # ys) i best_i best = argmax_loop ys (i + 1) best_i best"
        using nb by simp
      then show ?thesis
        unfolding Cons.IH using nb by simp
    qed
    have R: "(\<forall>w\<in>set (y # ys). w \<le> best) \<longleftrightarrow> \<not> best < y \<and> (\<forall>z\<in>set ys. z \<le> best)"
      by auto
    show ?thesis
      by (simp only: L R T) simp
  qed
qed

lemma np_argmax_first: "ys \<noteq> [] \<Longrightarrow> np_argmax ys = Inr (first_argmax ys)"
proof (cases ys)
  case Nil
  assume "ys \<noteq> []"
  with Nil show ?thesis by simp
next
  case (Cons y zs)
  show ?thesis
  proof (cases "\<forall>z\<in>set zs. z \<le> y")
    case True
    then have "Max (set (y # zs)) = y" by (intro Max_eqI) auto
    then show ?thesis
      using True by (simp add: np_argmax_def Cons first_argmax_def argmax_loop_first del: set_simps Max_insert)
  next
    case False
    then obtain z where z: "z \<in> set zs" "y < z" by (auto simp: not_le)
    have ne: "set zs \<noteq> {}" using z by auto
    have "z \<le> Max (set zs)" using z by (intro Max_ge) auto
    then have "y < Max (set zs)" using z(2) by (rule less_le_trans [rotated])
    then have m: "Max (set (y # zs)) = Max (set zs)" "y \<noteq> Max (set zs)"
      using ne by (simp_all add: max_def)
    show ?thesis
      using False m by (simp add: np_argmax_def Cons first_argmax_def argmax_loop_first del: set_simps Max_insert)
  qed
qed

lemma first_argmax_is_argmax:
  assumes "ys \<noteq> []"
  shows "first_argmax ys < length ys \<and> ys ! first_argmax ys = Max (set ys)
         \<and> (\<forall>j<first_argmax ys. ys ! j < Max (set ys))"
proof -
  have mem: "Max (set ys) \<in> set ys" using assms by (intro Max_in) auto
  have lt: "first_argmax ys < length ys"
  proof (rule ccontr)
    assume "\<not> first_argmax ys < length ys"
    then have "length (takeWhile (\<lambda>y. y \<noteq> Max (set ys)) ys) = length ys"
      using length_takeWhile_le [of "\<lambda>y. y \<noteq> Max (set ys)" ys]
      by (simp add: first_argmax_def)
    then have "takeWhile (\<lambda>y. y \<noteq> Max (set ys)) ys = ys"
      using takeWhile_eq_take [of "\<lambda>y. y \<noteq> Max (set ys)" ys] by simp
    then have "\<forall>y\<in>set ys. y \<noteq> Max (set ys)"
      by (simp only: takeWhile_eq_all_conv)
    with mem show False by blast
  qed
  have at: "ys ! first_argmax ys = Max (set ys)"
    using nth_length_takeWhile [of "\<lambda>y. y \<noteq> Max (set ys)" ys] lt
    by (simp add: first_argmax_def)
  have "ys ! j < Max (set ys)" if "j < first_argmax ys" for j
  proof -
    have "ys ! j \<noteq> Max (set ys)"
      using that takeWhile_nth [of j "\<lambda>y. y \<noteq> Max (set ys)" ys]
            nth_mem [of j "takeWhile (\<lambda>y. y \<noteq> Max (set ys)) ys"]
            set_takeWhileD [of "ys ! j" "\<lambda>y. y \<noteq> Max (set ys)" ys]
      by (simp add: first_argmax_def)
    moreover have "ys ! j \<le> Max (set ys)" using that lt by simp
    ultimately show ?thesis by simp
  qed
  with lt at show ?thesis by blast
qed

subsection \<open>The guess for a single peak\<close>

lemma peak_guess_value:
  assumes "fitdatay \<noteq> []" and "length fitdatax = length fitdatay"
  shows "peak_guess d fitdatax fitdatay
     = Inr [(hd fitdatay + last fitdatay) / 2,
            Max (set fitdatay) - Min (set fitdatay),
            fitdatax ! first_argmax fitdatay,
            (Max (set fitdatax) - Min (set fitdatax)) / d]"
proof -
  have x: "fitdatax \<noteq> []" using assms by auto
  have k: "first_argmax fitdatay < length fitdatax"
    using first_argmax_is_argmax [OF assms(1)] assms(2) by simp
  have h: "pyget fitdatay 0 = Inr (hd fitdatay)"
    using assms(1) by (simp add: pyget_def hd_conv_nth)
  have l: "pyget_last fitdatay = Inr (last fitdatay)"
    using assms(1) by (simp add: pyget_last_def)
  have g: "pyget fitdatax (first_argmax fitdatay) = Inr (fitdatax ! first_argmax fitdatay)"
    using k by (simp add: pyget_def)
  show ?thesis
    by (simp add: peak_guess_def bind_err_def h l g pymax_Max [OF assms(1)]
          pymin_Min [OF assms(1)] pymax_Max [OF x] pymin_Min [OF x]
          np_argmax_first [OF assms(1)])
qed

lemma fst_bind_out:
  "fst (bind_out m f) = fst m @ (case snd m of Inl e \<Rightarrow> [] | Inr a \<Rightarrow> fst (f a))"
  by (cases m) (auto simp: bind_out_def split: sum.splits prod.splits)

lemma fitbetter_first_event:
  "\<exists>rest. fst (fitbetter curve_fit xdata ydata fitfunc fitparams None showfit showstartfit
                   showdata label mark_data mark_fit show_diagnostics)
           = CurveFitCall fitparams # rest"
  by (simp add: fitbetter_def fst_bind_out)

lemma fitgeneral_first_event:
  "\<exists>rest. fst (fitgeneral leastsq xdata ydata fitfunc (Some start) None showfit showstartfit
                   showdata label mark_data mark_fit show_diagnostics)
           = LeastsqCall start # rest"
  by (simp add: fitgeneral_def fst_bind_out)

text \<open>
  Claim C6. On a non-empty dataset (the data after the domain restriction, \<open>x\<close> and
  \<open>y\<close> of equal length), the start vector that \<open>fitlor\<close> builds when \<open>fitparams\<close> is
  omitted is \<open>[(first y + last y)/2, max(y) - min(y), x at the first maximum of y,
  (max(x) - min(x))/10]\<close>, and \<open>fitgauss\<close> builds the same with the width divided
  by \<open>3\<close>; each wrapper hands that vector to its optimizer as the first thing it
  does.
\<close>

theorem peak_initial_guess:
  assumes "restrict xdata ydata domain = (fitdatax, fitdatay)"
      and "fitdatay \<noteq> []" and "length fitdatax = length fitdatay"
  shows "fitlor_guess fitdatax fitdatay
           = Inr [(hd fitdatay + last fitdatay) / 2,
                  Max (set fitdatay) - Min (set fitdatay),
                  fitdatax ! first_argmax fitdatay,
                  (Max (set fitdatax) - Min (set fitdatax)) / 10]
       \<and> fitgauss_guess fitdatax fitdatay
           = Inr [(hd fitdatay + last fitdatay) / 2,
                  Max (set fitdatay) - Min (set fitdatay),
                  fitdatax ! first_argmax fitdatay,
                  (Max (set fitdatax) - Min (set fitdatax)) / 3]
       \<and> take 1 (fst (fitlor curve_fit xdata ydata None domain showfit showstartfit label
                         False verbose))
           = [CurveFitCall (Some [(hd fitdatay + last fitdatay) / 2,
                  Max (set fitdatay) - Min (set fitdatay),
                  fitdatax ! first_argmax fitdatay,
                  (Max (set fitdatax) - Min (set fitdatax)) / 10])]
       \<and> take 1 (fst (fitgauss leastsq xdata ydata None False domain showfit showstartfit
                         label))
           = [LeastsqCall [(hd fitdatay + last fitdatay) / 2,
                  Max (set fitdatay) - Min (set fitdatay),
                  fitdatax ! first_argmax fitdatay,
                  (Max (set fitdatax) - Min (set fitdatax)) / 3]]"
proof (intro conjI)
  note g = peak_guess_value [OF assms(2) assms(3)]
  show "fitlor_guess fitdatax fitdatay
           = Inr [(hd fitdatay + last fitdatay) / 2,
                  Max (set fitdatay) - Min (set fitdatay),
                  fitdatax ! first_argmax fitdatay,
                  (Max (set fitdatax) - Min (set fitdatax)) / 10]"
    by (simp add: fitlor_guess_def g)
  show "fitgauss_guess fitdatax fitdatay
           = Inr [(hd fitdatay + last fitdatay) / 2,
                  Max (set fitdatay) - Min (set fitdatay),
                  fitdatax ! first_argmax fitdatay,
                  (Max (set fitdatax) - Min (set fitdatax)) / 3]"
    by (simp add: fitgauss_guess_def g)
  show "take 1 (fst (fitlor curve_fit xdata ydata None domain showfit showstartfit label
                         False verbose))
           = [CurveFitCall (Some [(hd fitdatay + last fitdatay) / 2,
                  Max (set fitdatay) - Min (set fitdatay),
                  fitdatax ! first_argmax fitdatay,
                  (Max (set fitdatax) - Min (set fitdatax)) / 10])]"
  proof -
    obtain rest where "fst (fitbetter curve_fit fitdatax fitdatay (broadcast_v2 lorfunc_better)
        (Some [(hd fitdatay + last fitdatay) / 2,
                  Max (set fitdatay) - Min (set fitdatay),
                  fitdatax ! first_argmax fitdatay,
                  (Max (set fitdatax) - Min (set fitdatax)) / 10])
        None showfit showstartfit True label ''bo'' ''r-'' True)
      = CurveFitCall (Some [(hd fitdatay + last fitdatay) / 2,
                  Max (set fitdatay) - Min (set fitdatay),
                  fitdatax ! first_argmax fitdatay,
                  (Max (set fitdatax) - Min (set fitdatax)) / 10]) # rest"
      using fitbetter_first_event by blast
    then show ?thesis
      by (simp add: fitlor_def assms(1) fitlor_guess_def g fst_bind_out ret_def)
  qed
  show "take 1 (fst (fitgauss leastsq xdata ydata None False domain showfit showstartfit
                         label))
           = [LeastsqCall [(hd fitdatay + last fitdatay) / 2,
                  Max (set fitdatay) - Min (set fitdatay),
                  fitdatax ! first_argmax fitdatay,
                  (Max (set fitdatax) - Min (set fitdatax)) / 3]]"
  proof -
    obtain rest where "fst (fitgeneral leastsq fitdatax fitdatay (broadcast (silent gaussfunc))
        (Some [(hd fitdatay + last fitdatay) / 2,
                  Max (set fitdatay) - Min (set fitdatay),
                  fitdatax ! first_argmax fitdatay,
                  (Max (set fitdatax) - Min (set fitdatax)) / 3])
        None showfit showstartfit True label ''bo'' ''r-'' False)
      = LeastsqCall [(hd fitdatay + last fitdatay) / 2,
                  Max (set fitdatay) - Min (set fitdatay),
                  fitdatax ! first_argmax fitdatay,
                  (Max (set fitdatax) - Min (set fitdatax)) / 3] # rest"
      using fitgeneral_first_event by blast
    then show ?thesis
      by (simp add: fitgauss_def assms(1) fitgauss_guess_def g fst_bind_out)
  qed
qed

theorem peak_initial_guess_witness:
  "restrict [0, 1, 2, 3] [1, 5, 2, 3] None = ([0, 1, 2, 3], [1, 5, 2, 3])
   \<and> [1, 5, 2, 3 :: real] \<noteq> [] \<and> length [0, 1, 2, 3 :: real] = length [1, 5, 2, 3 :: real]
   \<and> fitlor_guess [0, 1, 2, 3] [1, 5, 2, 3] = Inr [2, 4, 1, 3 / 10]
   \<and> fitgauss_guess [0, 1, 2, 3] [1, 5, 2, 3] = Inr [2, 4, 1, 1]"
proof -
  have r: "restrict [0, 1, 2, 3] [1, 5, 2, 3] None = ([0, 1, 2, 3], [1, 5, 2, 3])"
    by (simp add: restrict_def)
  have n: "[1, 5, 2, 3 :: real] \<noteq> []" by simp
  have l: "length [0, 1, 2, 3 :: real] = length [1, 5, 2, 3 :: real]" by simp
  have a: "first_argmax [1, 5, 2, 3] = 1" by (simp add: first_argmax_def)
  show ?thesis
    using peak_initial_guess [OF r n l] r a by simp
qed

section \<open>Properties of the decaying-sine wrapper\<close>

lemma decaysin3_fixed_t0:
  assumes "fitdatax \<noteq> []"
  shows "decaysin3 fitdatax p x = decaysin (take 5 p @ [hd fitdatax]) x"
proof -
  have t: "pyget fitdatax 0 = Inr (hd fitdatax)"
    using assms by (simp add: pyget_def hd_conv_nth)
  show ?thesis
  proof (cases "5 \<le> length p")
    case True
    then have g: "pyget (take 5 p @ [hd fitdatax]) i = (if i < 5 then Inr (p ! i) else if i = 5 then Inr (hd fitdatax) else Inl IndexError)" for i
      by (auto simp: pyget_def nth_append min_def)
    have h: "pyget p i = Inr (p ! i)" if "i < 5" for i
      using True that by (simp add: pyget_def)
    show ?thesis
      by (simp add: decaysin3_def decaysin_def bind_err_def t g h)
  next
    case False
    then have l: "length (take 5 p @ [hd fitdatax]) = length p + 1" by simp
    have g: "pyget (take 5 p @ [hd fitdatax]) i = (if i < length p then Inr (p ! i) else if i = length p then Inr (hd fitdatax) else Inl IndexError)" for i
      using False by (auto simp: pyget_def nth_append)
    have h: "pyget p i = (if i < length p then Inr (p ! i) else Inl IndexError)" for i
      by (simp add: pyget_def)
    have c: "length p = 0 \<or> length p = 1 \<or> length p = 2 \<or> length p = 3 \<or> length p = 4"
      using False by arith
    show ?thesis
      using c by (auto simp: decaysin3_def decaysin_def bind_err_def t g h)
  qed
qed

lemma fitdecaysin_guess_length:
  "(\<exists>e. fitdecaysin_guess fft_peak fitdatax fitdatay = Inl e)
   \<or> (\<exists>g. fitdecaysin_guess fft_peak fitdatax fitdatay = Inr g \<and> length g = 5)"
  by (auto simp: fitdecaysin_guess_def bind_err_def split: sum.splits prod.splits)

lemma decaysin3_error_everywhere:
  "decaysin3 fitdatax p x = Inl e \<Longrightarrow> decaysin3 fitdatax p x' = Inl e"
  by (auto simp: decaysin3_def bind_err_def split: sum.splits)

lemma map_err_first_error:
  "xs \<noteq> [] \<Longrightarrow> (\<And>x. f x = Inl e) \<Longrightarrow> map_err f xs = Inl e"
  by (cases xs) (simp_all add: bind_err_def)

lemma broadcast_decaysin3:
  assumes "fitdatax \<noteq> []"
  shows "broadcast (silent (decaysin3 fitdatax)) p fitdatax
           = ([], map_err (\<lambda>x. decaysin (take 5 p @ [hd fitdatax]) x) fitdatax)"
proof -
  have eq: "(\<lambda>x. decaysin3 fitdatax p x) = (\<lambda>x. decaysin (take 5 p @ [hd fitdatax]) x)"
    by (intro ext) (rule decaysin3_fixed_t0 [OF assms])
  show ?thesis
  proof (cases "decaysin3 fitdatax p 0")
    case (Inl e)
    have "map_err (\<lambda>x. decaysin3 fitdatax p x) fitdatax = Inl e"
      by (rule map_err_first_error [OF assms]) (rule decaysin3_error_everywhere [OF Inl])
    then show ?thesis
      using Inl by (simp add: broadcast_def silent_def eq)
  next
    case (Inr v)
    have "map_err (\<lambda>x. snd (silent (decaysin3 fitdatax) p x)) fitdatax
            = map_err (\<lambda>x. decaysin3 fitdatax p x) fitdatax"
      by (simp add: silent_def)
    then show ?thesis
      using Inr by (simp add: broadcast_def silent_def eq)
  qed
qed

lemma fitgeneral_decaysin3:
  assumes "fitdatax \<noteq> []"
  shows "fitgeneral leastsq fitdatax fitdatay (broadcast (silent (decaysin3 fitdatax)))
           (Some start) None showfit showstartfit True label ''bo'' ''r-'' False
         = ([LeastsqCall start],
            case leastsq (decaysin_fixed_t0_residuals fitdatax fitdatay) start of
              Inl e \<Rightarrow> Inl e
            | Inr (bestfitparams, success) \<Rightarrow>
                if showfit then Inl NameError
                else (case decaysin_fixed_t0_residuals fitdatax fitdatay bestfitparams of
                        Inl e \<Rightarrow> Inl e
                      | Inr residuals \<Rightarrow> Inr (Params bestfitparams)))"
proof -
  have r: "bind_out (broadcast (silent (decaysin3 fitdatax)) p fitdatax)
             (\<lambda>v. ([], np_sub v fitdatay))
           = ([], decaysin_fixed_t0_residuals fitdatax fitdatay p)" for p
    by (simp add: broadcast_decaysin3 [OF assms] bind_out_def bind_err_def
          decaysin_fixed_t0_residuals_def split: sum.splits)
  show ?thesis
    unfolding fitgeneral_def
    apply (simp add: r)
    apply (auto simp: bind_out_def ret_def raise_def split: sum.splits prod.splits)
    done
qed

text \<open>
  Values of \<open>decaysin\<close> with amplitude 3, a quarter turn per unit of \<open>x\<close>, decay
  time 1 and offset 4: with \<open>t0 = 1\<close> it is 7 at \<open>x = 1\<close> and 4 at \<open>x = 2\<close>; with
  \<open>t0 = 0\<close> it is \<open>3/e + 4\<close> at \<open>x = 1\<close>.
\<close>

lemma decaysin_example_values:
  "decaysin [3, 1 / 4, 0, 1, 4, 1] 1 = Inr 7"
  "decaysin [3, 1 / 4, 0, 1, 4, 1] 2 = Inr 4"
  "decaysin [3, 1 / 4, 0, 1, 4, 0] 1 = Inr (3 * exp (- 1) + 4)"
  by (simp_all add: decaysin_def pyget_def bind_err_def)

text \<open>
  Claim C10. On non-empty (domain-restricted) data, every call to \<open>fitdecaysin\<close>
  either raises while guessing or calls the optimizer once, with the start vector
  (given or guessed) and with, as the function to minimise, the residuals of
  \<open>decaysin\<close> whose \<open>t0\<close> is the first \<open>x\<close> of that data and whose other parameters are
  the first five entries of the vector under adjustment; what the call returns is
  the optimizer's vector. The lambda of the source is that model; a sixth entry
  \<open>t0\<close> of the vector changes neither it nor the residuals, and the guess, when it
  does not raise, has exactly five entries.
\<close>

theorem fitdecaysin_fits_with_fixed_t0:
  assumes "restrict xdata ydata domain = (fitdatax, fitdatay)" and "fitdatax \<noteq> []"
  shows "fitdecaysin leastsq fft_peak xdata ydata fitparams domain showfit showstartfit label
           = (case (case fitparams of
                      None \<Rightarrow> fitdecaysin_guess fft_peak fitdatax fitdatay
                    | Some given \<Rightarrow> Inr given) of
                Inl e \<Rightarrow> ([], Inl e)
              | Inr start \<Rightarrow>
                  ([LeastsqCall start],
                   case leastsq (decaysin_fixed_t0_residuals fitdatax fitdatay) start of
                     Inl e \<Rightarrow> Inl e
                   | Inr (bestfitparams, success) \<Rightarrow>
                       if showfit then Inl NameError
                       else (case decaysin_fixed_t0_residuals fitdatax fitdatay bestfitparams of
                               Inl e \<Rightarrow> Inl e
                             | Inr residuals \<Rightarrow> Inr (Params bestfitparams))))
       \<and> decaysin3 fitdatax = (\<lambda>p x. decaysin (take 5 p @ [hd fitdatax]) x)
       \<and> decaysin3 fitdatax [A, f, phi, tau, offset, t0] x
           = decaysin3 fitdatax [A, f, phi, tau, offset] x
       \<and> decaysin_fixed_t0_residuals fitdatax fitdatay [A, f, phi, tau, offset, t0]
           = decaysin_fixed_t0_residuals fitdatax fitdatay [A, f, phi, tau, offset]
       \<and> ((\<exists>e. fitdecaysin_guess fft_peak fitdatax fitdatay = Inl e)
          \<or> (\<exists>g. fitdecaysin_guess fft_peak fitdatax fitdatay = Inr g \<and> length g = 5))"
proof (intro conjI)
  show "fitdecaysin leastsq fft_peak xdata ydata fitparams domain showfit showstartfit label
           = (case (case fitparams of
                      None \<Rightarrow> fitdecaysin_guess fft_peak fitdatax fitdatay
                    | Some given \<Rightarrow> Inr given) of
                Inl e \<Rightarrow> ([], Inl e)
              | Inr start \<Rightarrow>
                  ([LeastsqCall start],
                   case leastsq (decaysin_fixed_t0_residuals fitdatax fitdatay) start of
                     Inl e \<Rightarrow> Inl e
                   | Inr (bestfitparams, success) \<Rightarrow>
                       if showfit then Inl NameError
                       else (case decaysin_fixed_t0_residuals fitdatax fitdatay bestfitparams of
                               Inl e \<Rightarrow> Inl e
                             | Inr residuals \<Rightarrow> Inr (Params bestfitparams))))"
  proof (cases "case fitparams of
                  None \<Rightarrow> fitdecaysin_guess fft_peak fitdatax fitdatay
                | Some given \<Rightarrow> Inr given")
    case (Inl e)
    then have "(case fitparams of
                  None \<Rightarrow> ([], fitdecaysin_guess fft_peak fitdatax fitdatay)
                | Some given \<Rightarrow> ret given) = ([], Inl e)"
      by (cases fitparams) (simp_all add: ret_def)
    then show ?thesis
      using Inl by (simp add: fitdecaysin_def assms(1) bind_out_def)
  next
    case (Inr start)
    then have "(case fitparams of
                  None \<Rightarrow> ([], fitdecaysin_guess fft_peak fitdatax fitdatay)
                | Some given \<Rightarrow> ret given) = ([], Inr start)"
      by (cases fitparams) (simp_all add: ret_def)
    then show ?thesis
      using Inr
      by (simp add: fitdecaysin_def assms(1) bind_out_def fitgeneral_decaysin3 [OF assms(2)])
  qed
  show "decaysin3 fitdatax = (\<lambda>p x. decaysin (take 5 p @ [hd fitdatax]) x)"
    by (intro ext) (rule decaysin3_fixed_t0 [OF assms(2)])
  show "decaysin3 fitdatax [A, f, phi, tau, offset, t0] x
           = decaysin3 fitdatax [A, f, phi, tau, offset] x"
    by (simp add: decaysin3_def pyget_def bind_err_def)
  show "decaysin_fixed_t0_residuals fitdatax fitdatay [A, f, phi, tau, offset, t0]
           = decaysin_fixed_t0_residuals fitdatax fitdatay [A, f, phi, tau, offset]"
    by (simp add: decaysin_fixed_t0_residuals_def)
  show "(\<exists>e. fitdecaysin_guess fft_peak fitdatax fitdatay = Inl e)
          \<or> (\<exists>g. fitdecaysin_guess fft_peak fitdatax fitdatay = Inr g \<and> length g = 5)"
    by (rule fitdecaysin_guess_length)
qed

theorem fitdecaysin_fits_with_fixed_t0_witness:
  "restrict [1, 2] [7, 4] None = ([1, 2], [7, 4]) \<and> [1, 2 :: real] \<noteq> []
   \<and> fitdecaysin (\<lambda>residuals start.
                      if residuals start = Inr [0, 0] then Inr (start, 1) else Inl ValueError)
         (\<lambda>x y. Inl ValueError) [1, 2] [7, 4] (Some [3, 1 / 4, 0, 1, 4, 0]) None
         False False []
       = ([LeastsqCall [3, 1 / 4, 0, 1, 4, 0]], Inr (Params [3, 1 / 4, 0, 1, 4, 0]))
   \<and> decaysin [3, 1 / 4, 0, 1, 4, 0] 1 \<noteq> Inr 7"
proof -
  have r: "restrict [1, 2] [7, 4] None = ([1, 2], [7, 4])" by (simp add: restrict_def)
  have n: "[1, 2 :: real] \<noteq> []" by simp
  have v: "decaysin_fixed_t0_residuals [1, 2] [7, 4] [3, 1 / 4, 0, 1, 4, 0] = Inr [0, 0]"
    by (simp add: decaysin_fixed_t0_residuals_def decaysin_example_values bind_err_def
          np_sub_def)
  have d: "decaysin [3, 1 / 4, 0, 1, 4, 0] 1 \<noteq> Inr 7"
    by (simp add: decaysin_example_values)
  show ?thesis
    using fitdecaysin_fits_with_fixed_t0 [OF r n,
            of "\<lambda>residuals start.
                  if residuals start = Inr [0, 0] then Inr (start, 1) else Inl ValueError"
               "\<lambda>x y. Inl ValueError" "Some [3, 1 / 4, 0, 1, 4, 0]" False False "[]"]
          r v d
    by simp
qed

end
